theory Spec2Isabelle
  imports Complex_Main
begin

section \<open>Values of the schema document\<close>

text \<open>
  The schema document is what \<^verbatim>\<open>json.loads\<close> returns (or what the profiler builds): nested
  Python values. A float is a finite number or NaN (\<^verbatim>\<open>json\<close> reads and writes NaN); the
  infinities are not modelled, and the arithmetic on finite floats is the arithmetic of the reals
  (no rounding). An int is unbounded; where Python or numpy turns an int into a float, an int
  beyond the floats is an OverflowError. A dictionary is an association list, looked up with
  \<open>map_of\<close>.
\<close>

datatype fl = Fin real | NaN

datatype json =
    JNull
  | JBool bool
  | JInt int
  | JFloat fl
  | JStr string
  | JArr "json list"
  | JObj "(string \<times> json) list"

type_synonym dict = "(string \<times> json) list"

text \<open>
  The exceptions of the source. The two \<^verbatim>\<open>ValueError\<close>s of the validator carry what their
  message names; \<open>Library\<close> is a \<^verbatim>\<open>ValueError\<close> raised inside pandas or numpy.
\<close>

datatype reason = Missing_columns | Bad_column json | Library

datatype error =
    ValueError reason
  | KeyError string
  | TypeError
  | AttributeError
  | IndexError
  | OverflowError

fun is_ValueError :: "error + 'a \<Rightarrow> bool" where
  "is_ValueError (Inl (ValueError r)) = True"
| "is_ValueError other = False"

section \<open>validators.py\<close>

text \<open>
  \<^verbatim>\<open>
  def validate_schema(s: dict) -> None:
      if "columns" not in s:
          raise ValueError("Schema missing 'columns'.")
      for col in s["columns"]:
          if not {"name", "type"} <= col.keys():
              raise ValueError(f"Bad column entry: {col}")
  \<close>
  \<open>has_keys\<close> is the test \<^verbatim>\<open>{"name", "type"} <= col.keys()\<close>. A column that is not a dictionary has
  no \<^verbatim>\<open>keys\<close> (AttributeError). \<open>iterate\<close> is what \<^verbatim>\<open>for col in v\<close> runs over: the items of a
  list, the keys of a dictionary, the characters of a string; the other values are not iterable.
\<close>

definition has_keys :: "dict \<Rightarrow> bool" where
  "has_keys col = (map_of col ''name'' \<noteq> None \<and> map_of col ''type'' \<noteq> None)"

fun check_columns :: "json list \<Rightarrow> error + unit" where
  "check_columns [] = Inr ()"
| "check_columns (JObj col # rest) =
     (if has_keys col then check_columns rest else Inl (ValueError (Bad_column (JObj col))))"
| "check_columns (other # rest) = Inl AttributeError"

fun iterate :: "json \<Rightarrow> error + json list" where
  "iterate (JArr xs) = Inr xs"
| "iterate (JObj kvs) = Inr (map JStr (remdups (map fst kvs)))"
| "iterate (JStr cs) = Inr (map (\<lambda>c. JStr [c]) cs)"
| "iterate other = Inl TypeError"

definition validate_schema :: "dict \<Rightarrow> error + unit" where
  "validate_schema s =
     (case map_of s ''columns'' of
        None \<Rightarrow> Inl (ValueError Missing_columns)
      | Some v \<Rightarrow> (case iterate v of Inl e \<Rightarrow> Inl e | Inr cols \<Rightarrow> check_columns cols))"

text \<open>
  The body of \<^verbatim>\<open>validate_schema\<close> has no assignment and calls no mutating method: a call leaves
  the document as it was. \<open>validate_schema_run\<close> is the call with the document after it.
\<close>

definition validate_schema_run :: "dict \<Rightarrow> (error + unit) \<times> dict" where
  "validate_schema_run s = (validate_schema s, s)"

text \<open>
  The shape the schema document has in the specification: the value under \<^verbatim>\<open>columns\<close>, when
  there is one, is a list of dictionaries (the column descriptors).
\<close>

fun is_descriptor :: "json \<Rightarrow> bool" where
  "is_descriptor (JObj col) = True"
| "is_descriptor other = False"

definition descriptors_of :: "dict \<Rightarrow> json list option" where
  "descriptors_of s =
     (case map_of s ''columns'' of
        Some (JArr cols) \<Rightarrow> (if list_all is_descriptor cols then Some cols else None)
      | _ \<Rightarrow> None)"

fun lacks_name_or_type :: "json \<Rightarrow> bool" where
  "lacks_name_or_type (JObj col) = (\<not> has_keys col)"
| "lacks_name_or_type other = False"

section \<open>What the synthesizer takes from its libraries\<close>

text \<open>
  The synthesizer calls Python's \<^verbatim>\<open>random\<close>, numpy and pandas. Their code is not part of the
  repository; the calls whose result the source does not determine are parameters of the
  model, collected in one record:
  \<^item> \<open>py_repr\<close>: \<^verbatim>\<open>str(x)\<close> of a value that is not itself a string;
  \<^item> \<open>random_random\<close>: one draw of \<^verbatim>\<open>random.random()\<close>, a float of the interval from 0 (included)
    to 1 (excluded), and the generator's next state;
  \<^item> \<open>np_random_normal\<close>: \<^verbatim>\<open>np.random.normal(loc, scale, size)\<close>, the drawn array or the
    exception, and the next state;
  \<^item> \<open>pd_to_datetime\<close>: \<^verbatim>\<open>pd.to_datetime(x)\<close> of one value: what pandas makes of it, or the
    exception for a value that does not parse;
  \<^item> \<open>pd_date_range\<close>: \<^verbatim>\<open>pd.date_range(start, end, periods=n)\<close>: the instants of the index it
    returns, in order, or the exception.
  The state \<open>'s\<close> is the state of the two global random generators.

  What \<^verbatim>\<open>pd.to_datetime\<close> returns is a timestamp without time zone (its nanoseconds since
  1970-01-01), the missing timestamp NaT, \<^verbatim>\<open>None\<close> (of \<^verbatim>\<open>None\<close>), or another object (a timestamp
  with a time zone, an index, ...), written as the value it was made from. An instant of an
  index is the nanoseconds since 1970-01-01 of the wall-clock time that \<^verbatim>\<open>strftime\<close> prints.
\<close>

datatype datetime = Timestamp int | NaT | PyNone | Object json

record 's runtime =
  py_repr :: "json \<Rightarrow> string"
  random_random :: "'s \<Rightarrow> real \<times> 's"
  np_random_normal :: "json \<Rightarrow> fl \<Rightarrow> int \<Rightarrow> 's \<Rightarrow> (error + fl list) \<times> 's"
  pd_to_datetime :: "json \<Rightarrow> error + datetime"
  pd_date_range :: "datetime \<Rightarrow> datetime \<Rightarrow> int \<Rightarrow> error + int list"

section \<open>Python operations the synthesizer uses\<close>

definition lookup :: "dict \<Rightarrow> string \<Rightarrow> error + json" where
  \<comment> \<open>\<^verbatim>\<open>c[k]\<close> on a dictionary\<close>
  "lookup c k = (case map_of c k of None \<Rightarrow> Inl (KeyError k) | Some v \<Rightarrow> Inr v)"

definition get_or :: "dict \<Rightarrow> string \<Rightarrow> json \<Rightarrow> json" where
  \<comment> \<open>\<^verbatim>\<open>c.get(k, default)\<close>; \<^verbatim>\<open>c.get(k)\<close> is \<open>get_or c k JNull\<close>\<close>
  "get_or c k d = (case map_of c k of None \<Rightarrow> d | Some v \<Rightarrow> v)"

fun falsy :: "json \<Rightarrow> bool" where
  \<comment> \<open>\<^verbatim>\<open>not v\<close>\<close>
  "falsy JNull = True"
| "falsy (JBool b) = (\<not> b)"
| "falsy (JInt i) = (i = 0)"
| "falsy (JFloat x) = (x = Fin 0)"
| "falsy (JStr s) = (s = [])"
| "falsy (JArr xs) = (xs = [])"
| "falsy (JObj kvs) = (kvs = [])"

fun item0 :: "json \<Rightarrow> error + json" where
  \<comment> \<open>\<^verbatim>\<open>x[0]\<close>\<close>
  "item0 (JArr (x # xs)) = Inr x"
| "item0 (JArr []) = Inl IndexError"
| "item0 (JStr (c # cs)) = Inr (JStr [c])"
| "item0 (JStr []) = Inl IndexError"
| "item0 (JObj kvs) = Inl (KeyError ''0'')"
| "item0 other = Inl TypeError"

fun is_list :: "json \<Rightarrow> bool" where
  \<comment> \<open>\<^verbatim>\<open>isinstance(x, list)\<close>\<close>
  "is_list (JArr xs) = True"
| "is_list other = False"

definition py_str :: "'s runtime \<Rightarrow> json \<Rightarrow> string" where
  \<comment> \<open>\<^verbatim>\<open>str(x)\<close>: a string is its own \<^verbatim>\<open>str\<close>\<close>
  "py_str L x = (case x of JStr s \<Rightarrow> s | _ \<Rightarrow> py_repr L x)"

fun each_item0 :: "json list \<Rightarrow> error + json list" where
  \<comment> \<open>\<^verbatim>\<open>x[0]\<close> of every item in turn, up to the first exception\<close>
  "each_item0 [] = Inr []"
| "each_item0 (x # xs) =
     (case item0 x of
        Inl e \<Rightarrow> Inl e
      | Inr y \<Rightarrow> (case each_item0 xs of Inl e \<Rightarrow> Inl e | Inr ys \<Rightarrow> Inr (y # ys)))"

datatype num = PyInt int | PyFloat fl

fun as_num :: "json \<Rightarrow> num option" where
  \<comment> \<open>the Python numbers: an int (a bool is an int) or a float\<close>
  "as_num (JInt i) = Some (PyInt i)"
| "as_num (JBool b) = Some (PyInt (of_bool b))"
| "as_num (JFloat x) = Some (PyFloat x)"
| "as_num other = None"

definition DBL_LIMIT :: real where
  \<comment> \<open>halfway between the largest float, \<open>2 ^ 1024 - 2 ^ 971\<close>, and \<open>2 ^ 1024\<close>: a number of
      this magnitude or more rounds beyond the floats\<close>
  "DBL_LIMIT = 2 ^ 1024 - 2 ^ 970"

definition to_double :: "int \<Rightarrow> error + fl" where
  \<comment> \<open>an int as a float\<close>
  "to_double i =
     (if DBL_LIMIT \<le> \<bar>real_of_int i\<bar> then Inl OverflowError else Inr (Fin (real_of_int i)))"

fun num_double :: "num \<Rightarrow> error + fl" where
  "num_double (PyInt i) = to_double i"
| "num_double (PyFloat x) = Inr x"

fun fl_sub :: "fl \<Rightarrow> fl \<Rightarrow> fl" where
  "fl_sub (Fin a) (Fin b) = Fin (a - b)"
| "fl_sub x y = NaN"

fun fl_div :: "fl \<Rightarrow> real \<Rightarrow> fl" where
  \<comment> \<open>division by a non-zero constant\<close>
  "fl_div (Fin a) d = Fin (a / d)"
| "fl_div NaN d = NaN"

fun num_sub :: "num \<Rightarrow> num \<Rightarrow> error + num" where
  \<comment> \<open>\<^verbatim>\<open>a - b\<close> on numbers: exact on two ints; with a float, the int is made a float first\<close>
  "num_sub (PyInt a) (PyInt b) = Inr (PyInt (a - b))"
| "num_sub (PyInt a) (PyFloat y) =
     (case to_double a of Inl e \<Rightarrow> Inl e | Inr x \<Rightarrow> Inr (PyFloat (fl_sub x y)))"
| "num_sub (PyFloat x) (PyInt b) =
     (case to_double b of Inl e \<Rightarrow> Inl e | Inr y \<Rightarrow> Inr (PyFloat (fl_sub x y)))"
| "num_sub (PyFloat x) (PyFloat y) = Inr (PyFloat (fl_sub x y))"

definition py_sub :: "json \<Rightarrow> json \<Rightarrow> error + num" where
  \<comment> \<open>\<^verbatim>\<open>a - b\<close> on the values of a schema document\<close>
  "py_sub a b =
     (case (as_num a, as_num b) of
        (Some x, Some y) \<Rightarrow> num_sub x y
      | _ \<Rightarrow> Inl TypeError)"

fun py_div6 :: "num \<Rightarrow> error + fl" where
  \<comment> \<open>\<^verbatim>\<open>x / 6\<close>: the true division of an int gives the float nearest to the quotient, or an
      OverflowError\<close>
  "py_div6 (PyInt a) =
     (if DBL_LIMIT \<le> \<bar>real_of_int a / 6\<bar> then Inl OverflowError
      else Inr (Fin (real_of_int a / 6)))"
| "py_div6 (PyFloat x) = Inr (fl_div x 6)"

fun fl_less :: "fl \<Rightarrow> fl \<Rightarrow> bool" where
  \<comment> \<open>\<^verbatim>\<open>a < b\<close>: false when either side is NaN\<close>
  "fl_less (Fin a) (Fin b) = (a < b)"
| "fl_less x y = False"

definition py_max :: "fl \<Rightarrow> fl \<Rightarrow> fl" where
  \<comment> \<open>\<^verbatim>\<open>max(a, b)\<close>: the first argument unless the second is greater\<close>
  "py_max a b = (if fl_less a b then b else a)"

fun np_maximum :: "fl \<Rightarrow> fl \<Rightarrow> fl" where
  "np_maximum (Fin a) (Fin b) = Fin (max a b)"
| "np_maximum x y = NaN"

fun np_minimum :: "fl \<Rightarrow> fl \<Rightarrow> fl" where
  "np_minimum (Fin a) (Fin b) = Fin (min a b)"
| "np_minimum x y = NaN"

definition np_clip :: "fl \<Rightarrow> fl \<Rightarrow> fl \<Rightarrow> fl" where
  \<comment> \<open>\<^verbatim>\<open>np.clip(x, low, high)\<close> on one element: \<^verbatim>\<open>minimum(maximum(x, low), high)\<close>; NaN stays NaN\<close>
  "np_clip x low high = np_minimum (np_maximum x low) high"

definition as_double :: "json \<Rightarrow> error + fl" where
  \<comment> \<open>a Python number as an element of an array of floats\<close>
  "as_double v = (case as_num v of None \<Rightarrow> Inl TypeError | Some x \<Rightarrow> num_double x)"

definition np_clip_array :: "fl list \<Rightarrow> json \<Rightarrow> json \<Rightarrow> error + fl list" where
  \<comment> \<open>\<^verbatim>\<open>np.clip(a, low, high)\<close> on an array of floats: the bounds are taken as floats\<close>
  "np_clip_array a low high =
     (case as_double low of Inl e \<Rightarrow> Inl e | Inr lo \<Rightarrow>
      case as_double high of Inl e \<Rightarrow> Inl e | Inr hi \<Rightarrow> Inr (map (\<lambda>z. np_clip z lo hi) a))"

definition py_index :: "'a list \<Rightarrow> int \<Rightarrow> error + 'a" where
  \<comment> \<open>\<^verbatim>\<open>xs[i]\<close> on a list; \<^verbatim>\<open>xs[-1]\<close> is the last item\<close>
  "py_index xs i =
     (if 0 \<le> i \<and> i < int (length xs) then Inr (xs ! nat i)
      else if - int (length xs) \<le> i \<and> i < 0 then Inr (xs ! nat (int (length xs) + i))
      else Inl IndexError)"

fun choices_loop :: "('s \<Rightarrow> real \<times> 's) \<Rightarrow> 'a list \<Rightarrow> nat \<Rightarrow> 's \<Rightarrow> (error + 'a list) \<times> 's" where
  "choices_loop rnd population 0 st = (Inr [], st)"
| "choices_loop rnd population (Suc k) st =
     (case rnd st of (u, st1) \<Rightarrow>
        (case py_index population \<lfloor>u * real (length population)\<rfloor> of
           Inl e \<Rightarrow> (Inl e, st1)
         | Inr x \<Rightarrow>
             (case choices_loop rnd population k st1 of
                (Inl e, st2) \<Rightarrow> (Inl e, st2)
              | (Inr xs, st2) \<Rightarrow> (Inr (x # xs), st2))))"

definition random_choices :: "'s runtime \<Rightarrow> 'a list \<Rightarrow> int \<Rightarrow> 's \<Rightarrow> (error + 'a list) \<times> 's" where
  \<comment> \<open>\<^verbatim>\<open>random.choices(population, k=n)\<close> without weights:
      \<^verbatim>\<open>[population[floor(random() * len(population))] for i in repeat(None, k)]\<close>\<close>
  "random_choices L population n st = choices_loop (random_random L) population (nat n) st"

fun str_nat :: "nat \<Rightarrow> string" where
  \<comment> \<open>the decimal digits of a natural number\<close>
  "str_nat n =
     (if n < 10 then [''0123456789'' ! n] else str_nat (n div 10) @ [''0123456789'' ! (n mod 10)])"

declare str_nat.simps [simp del]

fun py_range :: "json \<Rightarrow> error + nat list" where
  \<comment> \<open>\<^verbatim>\<open>range(v)\<close>: an int (or a bool) is needed\<close>
  "py_range (JInt i) = Inr [0 ..< nat i]"
| "py_range (JBool b) = Inr [0 ..< of_bool b]"
| "py_range other = Inl TypeError"

section \<open>Dates: how an instant is printed\<close>

text \<open>
  \<^verbatim>\<open>strftime("%Y-%m-%d")\<close> prints the calendar day of an instant in the proleptic Gregorian
  calendar, the year on four digits, month and day on two.
\<close>

definition day_of :: "int \<Rightarrow> int" where
  \<comment> \<open>days since 1970-01-01 of an instant in nanoseconds\<close>
  "day_of t = t div 86400000000000"

definition civil :: "int \<Rightarrow> int \<times> int \<times> int" where
  \<comment> \<open>year, month and day of a day number\<close>
  "civil days =
     (let z = days + 719468;
          era = z div 146097;
          doe = z mod 146097;
          yoe = (doe - doe div 1460 + doe div 36524 - doe div 146096) div 365;
          doy = doe - (365 * yoe + yoe div 4 - yoe div 100);
          mp = (5 * doy + 2) div 153;
          d = doy - (153 * mp + 2) div 5 + 1;
          m = (if mp < 10 then mp + 3 else mp - 9);
          y = yoe + era * 400 + (if m \<le> 2 then 1 else 0)
      in (y, m, d))"

definition pad :: "nat \<Rightarrow> string \<Rightarrow> string" where
  "pad k s = replicate (k - length s) (CHR ''0'') @ s"

definition strftime :: "int \<Rightarrow> string" where
  \<comment> \<open>\<^verbatim>\<open>strftime("%Y-%m-%d")\<close> of an instant\<close>
  "strftime t =
     (case civil (day_of t) of
        (y, m, d) \<Rightarrow> pad 4 (str_nat (nat y)) @ ''-'' @ pad 2 (str_nat (nat m)) @ ''-'' @ pad 2 (str_nat (nat d)))"

section \<open>synthesizer.py\<close>

text \<open>
  \<^verbatim>\<open>
  def _as_list(v: Any) -> List[str]:
      if not v:
          return []
      return [str(x[0]) if isinstance(v[0], list) else str(x) for x in v]
  \<close>
  A value that is not falsy and can be iterated has a first item, so \<^verbatim>\<open>v[0]\<close> is evaluated.
\<close>

definition as_list :: "'s runtime \<Rightarrow> json \<Rightarrow> error + string list" where
  "as_list L v =
     (if falsy v then Inr []
      else case iterate v of
        Inl e \<Rightarrow> Inl e
      | Inr xs \<Rightarrow>
          (case item0 v of
             Inl e \<Rightarrow> Inl e
           | Inr h \<Rightarrow>
               if is_list h
               then (case each_item0 xs of Inl e \<Rightarrow> Inl e | Inr ys \<Rightarrow> Inr (map (py_str L) ys))
               else Inr (map (py_str L) xs)))"

text \<open>
  \<^verbatim>\<open>
  def _sample_numeric(c: Dict[str, Any], n: int) -> np.ndarray:
      low, high, mu = c["min"], c["max"], c["mean"]
      sigma = max((high - low) / 6, 1e-9)
      return np.clip(np.random.normal(mu, sigma, n), low, high)
  \<close>
  \<^verbatim>\<open>high - low\<close> is defined on numbers; on the other values of a schema document (strings,
  lists, dictionaries, \<^verbatim>\<open>None\<close>) it is a TypeError. On two ints the difference is exact and
  the division by 6 raises OverflowError when the quotient is beyond the floats; numpy takes
  the bounds of \<^verbatim>\<open>np.clip\<close> as floats.
\<close>

definition sample_numeric :: "'s runtime \<Rightarrow> dict \<Rightarrow> int \<Rightarrow> 's \<Rightarrow> (error + fl list) \<times> 's" where
  "sample_numeric L c n st =
     (case lookup c ''min'' of Inl e \<Rightarrow> (Inl e, st) | Inr low \<Rightarrow>
      case lookup c ''max'' of Inl e \<Rightarrow> (Inl e, st) | Inr high \<Rightarrow>
      case lookup c ''mean'' of Inl e \<Rightarrow> (Inl e, st) | Inr mu \<Rightarrow>
      case py_sub high low of Inl e \<Rightarrow> (Inl e, st) | Inr width \<Rightarrow>
      case py_div6 width of Inl e \<Rightarrow> (Inl e, st) | Inr sixth \<Rightarrow>
        (let sigma = py_max sixth (Fin (1 / 10 ^ 9))
         in case np_random_normal L mu sigma n st of
              (Inl e, st1) \<Rightarrow> (Inl e, st1)
            | (Inr zs, st1) \<Rightarrow>
                (case np_clip_array zs low high of
                   Inl e \<Rightarrow> (Inl e, st1)
                 | Inr xs \<Rightarrow> (Inr xs, st1))))"

text \<open>
  \<^verbatim>\<open>
  def _sample_categorical(c: Dict[str, Any], n: int) -> List[str]:
      cats = _as_list(c.get("sample_values")) or [
          f"cat{i}" for i in range(c.get("unique", 5))
      ]
      return random.choices(cats, k=n)
  \<close>
\<close>

definition placeholders :: "dict \<Rightarrow> error + string list" where
  \<comment> \<open>\<^verbatim>\<open>[f"cat{i}" for i in range(c.get("unique", 5))]\<close>\<close>
  "placeholders c =
     (case py_range (get_or c ''unique'' (JInt 5)) of
        Inl e \<Rightarrow> Inl e
      | Inr idxs \<Rightarrow> Inr (map (\<lambda>i. ''cat'' @ str_nat i) idxs))"

definition sample_categorical :: "'s runtime \<Rightarrow> dict \<Rightarrow> int \<Rightarrow> 's \<Rightarrow> (error + string list) \<times> 's" where
  "sample_categorical L c n st =
     (case as_list L (get_or c ''sample_values'' JNull) of
        Inl e \<Rightarrow> (Inl e, st)
      | Inr vals \<Rightarrow>
          if vals \<noteq> [] then random_choices L vals n st
          else (case placeholders c of
                  Inl e \<Rightarrow> (Inl e, st)
                | Inr cats \<Rightarrow> random_choices L cats n st))"

text \<open>
  \<^verbatim>\<open>
  def _sample_datetime(c: Dict[str, Any], n: int) -> List[str]:
      try:
          start, end = pd.to_datetime(c["min"]), pd.to_datetime(c["max"])
          return pd.date_range(start, end, periods=n).strftime("%Y-%m-%d").tolist()
      except Exception:
          return ["2000-01-01"] * n
  \<close>
\<close>

definition sample_datetime :: "'s runtime \<Rightarrow> dict \<Rightarrow> int \<Rightarrow> string list" where
  "sample_datetime L c n =
     (let fallback = replicate (nat n) ''2000-01-01'' in
      case lookup c ''min'' of Inl e \<Rightarrow> fallback | Inr lo \<Rightarrow>
      case pd_to_datetime L lo of Inl e \<Rightarrow> fallback | Inr start \<Rightarrow>
      case lookup c ''max'' of Inl e \<Rightarrow> fallback | Inr hi \<Rightarrow>
      case pd_to_datetime L hi of Inl e \<Rightarrow> fallback | Inr end \<Rightarrow>
      case pd_date_range L start end n of Inl e \<Rightarrow> fallback | Inr ts \<Rightarrow> map strftime ts)"

text \<open>
  \<^verbatim>\<open>
  def _sample_text(c: Dict[str, Any], n: int) -> List[str]:
      vals = _as_list(c.get("sample_values")) or ["lorem ipsum"]
      return random.choices(vals, k=n)
  \<close>
\<close>

definition sample_text :: "'s runtime \<Rightarrow> dict \<Rightarrow> int \<Rightarrow> 's \<Rightarrow> (error + string list) \<times> 's" where
  "sample_text L c n st =
     (case as_list L (get_or c ''sample_values'' JNull) of
        Inl e \<Rightarrow> (Inl e, st)
      | Inr vals \<Rightarrow> random_choices L (if vals \<noteq> [] then vals else [''lorem ipsum'']) n st)"

text \<open>
  \<^verbatim>\<open>
  def generate_rows(schema: Dict[str, Any], rows: int = 1000) -> pd.DataFrame:
      cols = {}
      for col in schema["columns"]:
          kind = col["type"]
          if kind == "numeric":
              cols[col["name"]] = _sample_numeric(col, rows)
          elif kind == "datetime":
              cols[col["name"]] = _sample_datetime(col, rows)
          elif kind == "text":
              cols[col["name"]] = _sample_text(col, rows)
          else:
              cols[col["name"]] = _sample_categorical(col, rows)
      return pd.DataFrame(cols)
  \<close>
  A column of the table is an array of floats or a list of strings. The keys of \<^verbatim>\<open>cols\<close> are
  the hashable values: strings, numbers (equal numbers are one key) and \<^verbatim>\<open>None\<close>; a list or a
  dictionary as a name is a TypeError. In an assignment Python evaluates the right-hand side
  before the subscript, and an assignment to a key already in the dictionary keeps the key's
  place. \<^verbatim>\<open>pd.DataFrame\<close> raises when the columns differ in length. (Python keeps two NaN
  names apart; here NaN is one key.)
\<close>

datatype column = Floats "fl list" | Strs "string list"

datatype key = KStr string | KNum fl | KNone

fun key_of :: "json \<Rightarrow> error + key" where
  "key_of (JStr s) = Inr (KStr s)"
| "key_of (JInt i) = Inr (KNum (Fin (of_int i)))"
| "key_of (JFloat x) = Inr (KNum x)"
| "key_of (JBool b) = Inr (KNum (Fin (of_bool b)))"
| "key_of JNull = Inr KNone"
| "key_of other = Inl TypeError"

fun dict_set :: "('k \<times> 'v) list \<Rightarrow> 'k \<Rightarrow> 'v \<Rightarrow> ('k \<times> 'v) list" where
  \<comment> \<open>\<^verbatim>\<open>d[k] = v\<close>\<close>
  "dict_set [] k v = [(k, v)]"
| "dict_set ((k', v') # rest) k v =
     (if k' = k then (k', v) # rest else (k', v') # dict_set rest k v)"

fun column_length :: "column \<Rightarrow> nat" where
  "column_length (Floats xs) = length xs"
| "column_length (Strs xs) = length xs"

type_synonym table = "(key \<times> column) list"

definition DataFrame :: "table \<Rightarrow> error + table" where
  "DataFrame cols =
     (case cols of
        [] \<Rightarrow> Inr []
      | (k, c) # rest \<Rightarrow>
          if list_all (\<lambda>(k', c'). column_length c' = column_length c) rest then Inr cols
          else Inl (ValueError Library))"

definition sample_column :: "'s runtime \<Rightarrow> dict \<Rightarrow> json \<Rightarrow> int \<Rightarrow> 's \<Rightarrow> (error + column) \<times> 's" where
  \<comment> \<open>the right-hand side of the assignment, chosen by \<^verbatim>\<open>kind\<close>\<close>
  "sample_column L col kind n st =
     (if kind = JStr ''numeric'' then
        (case sample_numeric L col n st of
           (Inl e, st1) \<Rightarrow> (Inl e, st1) | (Inr xs, st1) \<Rightarrow> (Inr (Floats xs), st1))
      else if kind = JStr ''datetime'' then (Inr (Strs (sample_datetime L col n)), st)
      else if kind = JStr ''text'' then
        (case sample_text L col n st of
           (Inl e, st1) \<Rightarrow> (Inl e, st1) | (Inr xs, st1) \<Rightarrow> (Inr (Strs xs), st1))
      else
        (case sample_categorical L col n st of
           (Inl e, st1) \<Rightarrow> (Inl e, st1) | (Inr xs, st1) \<Rightarrow> (Inr (Strs xs), st1)))"

fun generate_loop :: "'s runtime \<Rightarrow> json list \<Rightarrow> int \<Rightarrow> table \<Rightarrow> 's \<Rightarrow> (error + table) \<times> 's" where
  "generate_loop L [] n cols st = (Inr cols, st)"
| "generate_loop L (JObj col # rest) n cols st =
     (case lookup col ''type'' of
        Inl e \<Rightarrow> (Inl e, st)
      | Inr kind \<Rightarrow>
          (case sample_column L col kind n st of
             (Inl e, st1) \<Rightarrow> (Inl e, st1)
           | (Inr xs, st1) \<Rightarrow>
               (case lookup col ''name'' of
                  Inl e \<Rightarrow> (Inl e, st1)
                | Inr name \<Rightarrow>
                    (case key_of name of
                       Inl e \<Rightarrow> (Inl e, st1)
                     | Inr k \<Rightarrow> generate_loop L rest n (dict_set cols k xs) st1))))"
| "generate_loop L (other # rest) n cols st = (Inl TypeError, st)"

definition generate_rows :: "'s runtime \<Rightarrow> dict \<Rightarrow> int \<Rightarrow> 's \<Rightarrow> (error + table) \<times> 's" where
  "generate_rows L schema rows st =
     (case lookup schema ''columns'' of
        Inl e \<Rightarrow> (Inl e, st)
      | Inr v \<Rightarrow>
          (case iterate v of
             Inl e \<Rightarrow> (Inl e, st)
           | Inr descriptors \<Rightarrow>
               (case generate_loop L descriptors rows [] st of
                  (Inl e, st1) \<Rightarrow> (Inl e, st1)
                | (Inr cols, st1) \<Rightarrow> (DataFrame cols, st1))))"

section \<open>generator.py\<close>

text \<open>
  The second synthesis module of the package.
  \<^verbatim>\<open>
  def _sample_numeric(col_schema: Dict[str, Any], n: int) -> np.ndarray:
      low = col_schema["min"]
      high = col_schema["max"]
      mean = col_schema["mean"]
      sigma = max((high - low) / 6, 1e-9)
      values = np.random.normal(loc=mean, scale=sigma, size=n)
      return np.clip(values, low, high)

  def _sample_datetime(col_schema: Dict[str, Any], n: int) -> list[str]:
      start = pd.to_datetime(col_schema["min"])
      end = pd.to_datetime(col_schema["max"])
      dates = pd.date_range(start=start, end=end, periods=n)
      return dates.strftime("%Y-%m-%d").tolist()
  \<close>
\<close>

definition generator_sample_numeric ::
  "'s runtime \<Rightarrow> dict \<Rightarrow> int \<Rightarrow> 's \<Rightarrow> (error + fl list) \<times> 's" where
  "generator_sample_numeric L col_schema n st =
     (case lookup col_schema ''min'' of Inl e \<Rightarrow> (Inl e, st) | Inr low \<Rightarrow>
      case lookup col_schema ''max'' of Inl e \<Rightarrow> (Inl e, st) | Inr high \<Rightarrow>
      case lookup col_schema ''mean'' of Inl e \<Rightarrow> (Inl e, st) | Inr mean \<Rightarrow>
      case py_sub high low of Inl e \<Rightarrow> (Inl e, st) | Inr width \<Rightarrow>
      case py_div6 width of Inl e \<Rightarrow> (Inl e, st) | Inr sixth \<Rightarrow>
        (let sigma = py_max sixth (Fin (1 / 10 ^ 9))
         in case np_random_normal L mean sigma n st of
              (Inl e, st1) \<Rightarrow> (Inl e, st1)
            | (Inr vals, st1) \<Rightarrow>
                (case np_clip_array vals low high of
                   Inl e \<Rightarrow> (Inl e, st1)
                 | Inr clipped \<Rightarrow> (Inr clipped, st1))))"

definition generator_sample_datetime :: "'s runtime \<Rightarrow> dict \<Rightarrow> int \<Rightarrow> error + string list" where
  "generator_sample_datetime L col_schema n =
     (case lookup col_schema ''min'' of Inl e \<Rightarrow> Inl e | Inr lo \<Rightarrow>
      case pd_to_datetime L lo of Inl e \<Rightarrow> Inl e | Inr start \<Rightarrow>
      case lookup col_schema ''max'' of Inl e \<Rightarrow> Inl e | Inr hi \<Rightarrow>
      case pd_to_datetime L hi of Inl e \<Rightarrow> Inl e | Inr end \<Rightarrow>
      case pd_date_range L start end n of Inl e \<Rightarrow> Inl e | Inr dates \<Rightarrow> Inr (map strftime dates))"

section \<open>Notions the statements about numbers use\<close>

fun in_bounds :: "real \<Rightarrow> real \<Rightarrow> fl \<Rightarrow> bool" where
  \<comment> \<open>a float that is a number of the closed interval\<close>
  "in_bounds lo hi (Fin x) = (lo \<le> x \<and> x \<le> hi)"
| "in_bounds lo hi NaN = False"

section \<open>The draws of a run\<close>

text \<open>
  The uniform draws that \<open>k\<close> successive calls of \<^verbatim>\<open>random.random()\<close> return from a state, and
  the state after them.
\<close>

fun draws :: "('s \<Rightarrow> real \<times> 's) \<Rightarrow> nat \<Rightarrow> 's \<Rightarrow> real list" where
  "draws rnd 0 st = []"
| "draws rnd (Suc k) st = fst (rnd st) # draws rnd k (snd (rnd st))"

fun state_after :: "('s \<Rightarrow> real \<times> 's) \<Rightarrow> nat \<Rightarrow> 's \<Rightarrow> 's" where
  "state_after rnd 0 st = st"
| "state_after rnd (Suc k) st = state_after rnd k (snd (rnd st))"

definition unit_draws :: "'s runtime \<Rightarrow> bool" where
  \<comment> \<open>what \<^verbatim>\<open>random.random()\<close> promises: a float of the half-open unit interval\<close>
  "unit_draws L = (\<forall>st. 0 \<le> fst (random_random L st) \<and> fst (random_random L st) < 1)"

fun pair_value :: "json \<Rightarrow> json option" where
  \<comment> \<open>the value of an entry \<^verbatim>\<open>[value, frequency]\<close> of \<^verbatim>\<open>sample_values\<close>\<close>
  "pair_value (JArr [v, f]) = Some v"
| "pair_value other = None"

definition spec_sigma :: "real \<Rightarrow> real \<Rightarrow> real" where
  \<comment> \<open>the standard deviation in the words of the specification: \<open>(max - min) / 6\<close>, at least a
      small positive epsilon\<close>
  "spec_sigma lo hi = max ((hi - lo) / 6) (1 / 10 ^ 9)"

section \<open>An instance of the libraries\<close>

text \<open>
  A small instance of the library record, to run the model on concrete inputs: the generator
  state is a counter; the uniform draws cycle through 0, 0.1, ..., 0.9; the normal draws of a
  numeric mean \<open>m\<close> cycle through \<open>m - 4 s\<close>, \<open>m\<close>, \<open>m + 4 s\<close>, and are NaN when the mean or the
  scale is NaN; a date is read from the ISO form \<^verbatim>\<open>YYYY-MM-DD\<close>, \<^verbatim>\<open>None\<close> gives \<^verbatim>\<open>None\<close>, and nothing
  else parses; the range of \<open>n\<close> instants between two timestamps has the \<open>i\<close>-th instant at
  \<open>i / (n - 1)\<close> of the way, rounded down to a whole nanosecond, and the last at the end; a
  range between anything else than two timestamps raises.
  (pandas spreads the instants of a range in floating point: its instants can differ from
  these by the rounding of the floats. They are the same on the inputs used below, where every
  step is a whole number of seconds.)
\<close>

definition digit_val :: "char \<Rightarrow> int option" where
  "digit_val c = map_of (zip ''0123456789'' [0, 1, 2, 3, 4, 5, 6, 7, 8, 9]) c"

fun number_val :: "string \<Rightarrow> int option" where
  "number_val [] = None"
| "number_val cs =
     (if list_all (\<lambda>c. digit_val c \<noteq> None) cs
      then Some (foldl (\<lambda>acc c. 10 * acc + the (digit_val c)) 0 cs) else None)"

definition days_from_civil :: "int \<Rightarrow> int \<Rightarrow> int \<Rightarrow> int" where
  "days_from_civil y m d =
     (let y1 = (if m \<le> 2 then y - 1 else y);
          era = y1 div 400;
          yoe = y1 mod 400;
          doy = (153 * (if m > 2 then m - 3 else m + 9) + 2) div 5 + d - 1;
          doe = yoe * 365 + yoe div 4 - yoe div 100 + doy
      in era * 146097 + doe - 719468)"

definition iso_date :: "string \<Rightarrow> int option" where
  \<comment> \<open>the instant (midnight) of a date written \<^verbatim>\<open>YYYY-MM-DD\<close>\<close>
  "iso_date s =
     (if length s = 10 \<and> s ! 4 = CHR ''-'' \<and> s ! 7 = CHR ''-'' then
        (case (number_val (take 4 s), number_val (take 2 (drop 5 s)), number_val (drop 8 s)) of
           (Some y, Some m, Some d) \<Rightarrow>
             if 1 \<le> m \<and> m \<le> 12 \<and> 1 \<le> d \<and> d \<le> 31
             then Some (days_from_civil y m d * 86400000000000) else None
         | _ \<Rightarrow> None)
      else None)"

fun iso_to_datetime :: "json \<Rightarrow> error + datetime" where
  "iso_to_datetime (JStr s) =
     (case iso_date s of None \<Rightarrow> Inl (ValueError Library) | Some t \<Rightarrow> Inr (Timestamp t))"
| "iso_to_datetime JNull = Inr PyNone"
| "iso_to_datetime other = Inl TypeError"

definition steps :: "int \<Rightarrow> int \<Rightarrow> nat \<Rightarrow> int list" where
  "steps a b n =
     (if n = 0 then []
      else if n = 1 then [a]
      else map (\<lambda>i. if i = n - 1 then b else a + (int i * (b - a)) div (int n - 1)) [0 ..< n])"

fun steps_range :: "datetime \<Rightarrow> datetime \<Rightarrow> int \<Rightarrow> error + int list" where
  "steps_range (Timestamp a) (Timestamp b) n =
     (if n < 0 then Inl (ValueError Library) else Inr (steps a b (nat n)))"
| "steps_range d1 d2 n = Inl (ValueError Library)"

fun cycle_draw :: "fl \<Rightarrow> fl \<Rightarrow> nat \<Rightarrow> fl" where
  "cycle_draw (Fin m) (Fin s) k = Fin (m + s * (4 * real (k mod 3) - 4))"
| "cycle_draw m s k = NaN"

definition cycle_normal :: "json \<Rightarrow> fl \<Rightarrow> int \<Rightarrow> nat \<Rightarrow> (error + fl list) \<times> nat" where
  "cycle_normal loc scale n st =
     (case as_double loc of
        Inl e \<Rightarrow> (Inl e, st)
      | Inr m \<Rightarrow>
          if n < 0 \<or> fl_less scale (Fin 0) then (Inl (ValueError Library), st)
          else (Inr (map (\<lambda>i. cycle_draw m scale (st + i)) [0 ..< nat n]), st + nat n))"

definition lib0 :: "nat runtime" where
  "lib0 = \<lparr> py_repr = (\<lambda>x. ''?''),
            random_random = (\<lambda>st. (real (st mod 10) / 10, Suc st)),
            np_random_normal = cycle_normal,
            pd_to_datetime = iso_to_datetime,
            pd_date_range = steps_range \<rparr>"

section \<open>Notions the statements about dates use\<close>

definition converted :: "'s runtime \<Rightarrow> dict \<Rightarrow> string \<Rightarrow> datetime option" where
  \<comment> \<open>what \<^verbatim>\<open>pd.to_datetime\<close> makes of a field of the schema: \<open>None\<close> when the field is absent
      or \<^verbatim>\<open>pd.to_datetime\<close> raises on it\<close>
  "converted L c k =
     (case map_of c k of
        None \<Rightarrow> None
      | Some v \<Rightarrow> (case pd_to_datetime L v of Inl e \<Rightarrow> None | Inr d \<Rightarrow> Some d))"

definition parsed :: "'s runtime \<Rightarrow> dict \<Rightarrow> string \<Rightarrow> int option" where
  \<comment> \<open>the instant a field of the schema parses to, when it parses to a timestamp\<close>
  "parsed L c k = (case converted L c k of Some (Timestamp t) \<Rightarrow> Some t | _ \<Rightarrow> None)"




section \<open>Notions the statements about the generated table use\<close>

definition descriptor_items :: "dict \<Rightarrow> json list" where
  \<comment> \<open>the items \<^verbatim>\<open>for col in schema["columns"]\<close> runs over\<close>
  "descriptor_items schema =
     (case map_of schema ''columns'' of
        None \<Rightarrow> []
      | Some v \<Rightarrow> (case iterate v of Inl e \<Rightarrow> [] | Inr ds \<Rightarrow> ds))"

fun name_key :: "json \<Rightarrow> key option" where
  \<comment> \<open>the dictionary key that the name of a descriptor is, when it has a hashable name\<close>
  "name_key (JObj col) =
     (case map_of col ''name'' of
        None \<Rightarrow> None
      | Some name \<Rightarrow> (case key_of name of Inl e \<Rightarrow> None | Inr k \<Rightarrow> Some k))"
| "name_key other = None"

definition insert_new :: "'a list \<Rightarrow> 'a \<Rightarrow> 'a list" where
  "insert_new ks k = (if k \<in> set ks then ks else ks @ [k])"

definition first_occurrences :: "'a list \<Rightarrow> 'a list" where
  \<comment> \<open>a list without its repetitions, each item at the place of its first occurrence\<close>
  "first_occurrences ks = foldl insert_new [] ks"

section \<open>Tables, and what the profiler takes from pandas\<close>

text \<open>
  A table is its column names and its rows; a cell is a number, a text or missing (NaN,
  \<^verbatim>\<open>None\<close>). The column names are distinct, as \<^verbatim>\<open>read_csv\<close> makes them, and every row has one
  cell per column. The pandas calls whose result the source does not determine are parameters:
  \<^item> \<open>sample42\<close>: \<^verbatim>\<open>s.sample(k, random_state=42)\<close>, the sample of \<open>k\<close> values of a column;
  \<^item> \<open>to_numeric_raise\<close>: \<^verbatim>\<open>pd.to_numeric(s)\<close>, which raises when a value does not parse;
  \<^item> \<open>to_numeric_coerce\<close>: \<^verbatim>\<open>pd.to_numeric(s, errors="coerce")\<close>, NaN where a value does not parse
    or is missing;
  \<^item> \<open>to_datetime_coerce\<close>: \<^verbatim>\<open>pd.to_datetime(s, errors="coerce")\<close>, the timestamps in nanoseconds,
    \<open>None\<close> (NaT) where a value does not parse or is missing;
  \<^item> \<open>astype_str\<close>: \<^verbatim>\<open>r.astype(str)\<close>, the strings of the cells of a row.
\<close>

datatype cell = NA | Num real | Str string

record dataframe =
  columns :: "string list"
  rows :: "cell list list"

record pandas =
  sample42 :: "nat \<Rightarrow> cell list \<Rightarrow> cell list"
  to_numeric_raise :: "cell list \<Rightarrow> error + fl list"
  to_numeric_coerce :: "cell list \<Rightarrow> fl list"
  to_datetime_coerce :: "cell list \<Rightarrow> int option list"
  astype_str :: "cell list \<Rightarrow> string list"

definition dropna :: "cell list \<Rightarrow> cell list" where
  "dropna s = filter (\<lambda>x. x \<noteq> NA) s"

definition column_values :: "dataframe \<Rightarrow> string \<Rightarrow> cell list" where
  \<comment> \<open>\<^verbatim>\<open>df[col]\<close> for a name of \<^verbatim>\<open>df.columns\<close>\<close>
  "column_values df col =
     (let i = length (takeWhile (\<lambda>c. c \<noteq> col) (columns df)) in map (\<lambda>r. r ! i) (rows df))"

section \<open>Aggregates of pandas\<close>

text \<open>
  The aggregates skip NaN and NaT; over no value at all they give NaN (NaT). The standard
  deviation is the one with \<^verbatim>\<open>ddof=0\<close>. \<^verbatim>\<open>value_counts\<close> lists the distinct values that are not
  missing with their counts, the most frequent first (values of equal count in the order of
  their first occurrence).
\<close>

fun finite_values :: "fl list \<Rightarrow> real list" where
  "finite_values [] = []"
| "finite_values (Fin x # xs) = x # finite_values xs"
| "finite_values (NaN # xs) = finite_values xs"

definition series_mean :: "fl list \<Rightarrow> fl" where
  "series_mean s =
     (let xs = finite_values s in if xs = [] then NaN else Fin (sum_list xs / real (length xs)))"

definition series_std0 :: "fl list \<Rightarrow> fl" where
  "series_std0 s =
     (let xs = finite_values s in
      if xs = [] then NaN
      else let m = sum_list xs / real (length xs)
           in Fin (sqrt (sum_list (map (\<lambda>x. (x - m) ^ 2) xs) / real (length xs))))"

definition series_min :: "fl list \<Rightarrow> fl" where
  "series_min s = (case finite_values s of [] \<Rightarrow> NaN | x # xs \<Rightarrow> Fin (fold min xs x))"

definition series_max :: "fl list \<Rightarrow> fl" where
  "series_max s = (case finite_values s of [] \<Rightarrow> NaN | x # xs \<Rightarrow> Fin (fold max xs x))"

definition notna_mean :: "int option list \<Rightarrow> fl" where
  \<comment> \<open>\<^verbatim>\<open>dt.notna().mean()\<close>: the fraction of the timestamps that are not NaT\<close>
  "notna_mean dt =
     (if dt = [] then NaN
      else Fin (real (length (filter (\<lambda>t. t \<noteq> None) dt)) / real (length dt)))"

definition value_counts :: "cell list \<Rightarrow> (cell \<times> nat) list" where
  "value_counts s =
     (let xs = dropna s
      in sort_key (\<lambda>(k, c). - int c) (map (\<lambda>k. (k, count_list xs k)) (first_occurrences xs)))"

definition date_str :: "int option list \<Rightarrow> (int \<Rightarrow> int \<Rightarrow> int) \<Rightarrow> string" where
  \<comment> \<open>\<^verbatim>\<open>str(s_dt.min().date())\<close> and \<^verbatim>\<open>str(s_dt.max().date())\<close>: the ISO day of the least
      (greatest) timestamp; \<^verbatim>\<open>NaT.date()\<close> is NaT\<close>
  "date_str dt pick =
     (case List.map_filter id dt of [] \<Rightarrow> ''NaT'' | t # ts \<Rightarrow> strftime (fold pick ts t))"

section \<open>profiler.py\<close>

text \<open>
  \<^verbatim>\<open>
  _METADATA_TOKENS = {"ticker", "date", "nan", ""}

  def _looks_like_header(row: pd.Series, column_names: List[str]) -> bool:
      row_str = row.astype(str).str.lower()
      if list(row_str) == [c.lower() for c in column_names]:
          return True
      if row_str.str.fullmatch(r"[a-z_]+").all():
          return True
      return False
  \<close>
  A string is a list of bytes; \<open>lower\<close> lowers the ASCII letters.
\<close>

definition lower_char :: "char \<Rightarrow> char" where
  "lower_char ch =
     (case map_of (zip ''ABCDEFGHIJKLMNOPQRSTUVWXYZ'' ''abcdefghijklmnopqrstuvwxyz'') ch of
        None \<Rightarrow> ch | Some l \<Rightarrow> l)"

definition lower :: "string \<Rightarrow> string" where
  "lower s = map lower_char s"

definition fullmatch_word :: "string \<Rightarrow> bool" where
  \<comment> \<open>\<^verbatim>\<open>fullmatch(r"[a-z_]+")\<close>\<close>
  "fullmatch_word s = (s \<noteq> [] \<and> list_all (\<lambda>ch. ch \<in> set ''abcdefghijklmnopqrstuvwxyz_'') s)"

definition METADATA_TOKENS :: "string list" where
  "METADATA_TOKENS = [''ticker'', ''date'', ''nan'', '''']"

definition looks_like_header :: "pandas \<Rightarrow> cell list \<Rightarrow> string list \<Rightarrow> bool" where
  "looks_like_header P row column_names =
     (let row_str = map lower (astype_str P row) in
      if row_str = map lower column_names then True
      else if list_all fullmatch_word row_str then True
      else False)"

text \<open>
  \<^verbatim>\<open>
  def _infer_col_type(s: pd.Series) -> str:
      s_nonan = s.dropna()
      if s_nonan.empty:
          return "text"
      try:
          pd.to_numeric(s_nonan.sample(min(20, len(s_nonan)), random_state=42))
          return "numeric"
      except Exception:
          pass
      dt = pd.to_datetime(
          s_nonan.sample(min(20, len(s_nonan)), random_state=42), errors="coerce"
      )
      if dt.notna().mean() > 0.8:
          return "datetime"
      unique_ratio = s_nonan.nunique() / len(s_nonan)
      return "categorical" if unique_ratio < 0.4 else "text"
  \<close>
\<close>

definition infer_col_type :: "pandas \<Rightarrow> cell list \<Rightarrow> string" where
  "infer_col_type P s =
     (let s_nonan = dropna s in
      if s_nonan = [] then ''text''
      else case to_numeric_raise P (sample42 P (min 20 (length s_nonan)) s_nonan) of
        Inr parsed_sample \<Rightarrow> ''numeric''
      | Inl e \<Rightarrow>
          (let dt = to_datetime_coerce P (sample42 P (min 20 (length s_nonan)) s_nonan) in
           if fl_less (Fin (8 / 10)) (notna_mean dt) then ''datetime''
           else let unique_ratio = real (length (remdups s_nonan)) / real (length s_nonan)
                in if unique_ratio < 4 / 10 then ''categorical'' else ''text''))"

text \<open>
  \<^verbatim>\<open>
  def _clean(self, df: pd.DataFrame) -> pd.DataFrame:
      df = df.dropna(how="all")
      df = df[
          ~df.apply(
              lambda r: _looks_like_header(r, df.columns.tolist())
              or r.astype(str).str.lower().isin(_METADATA_TOKENS).all(),
              axis=1,
          )
      ]
      return df.reset_index(drop=True)
  \<close>
  On a table with rows, \<^verbatim>\<open>df.apply(f, axis=1)\<close> is the series of the booleans \<^verbatim>\<open>f(r)\<close>, and
  \<^verbatim>\<open>df[~...]\<close> keeps the rows where it is false. On a table with no row, \<^verbatim>\<open>df.apply\<close> calls \<^verbatim>\<open>f\<close>
  on no row and returns an empty series of floats; \<^verbatim>\<open>~\<close> leaves an empty series as it is, and
  \<^verbatim>\<open>df[...]\<close> with a list-like that is not boolean selects the columns it lists: none. So when
  \<^verbatim>\<open>dropna\<close> leaves no row, the cleaned table has no column either.
\<close>

definition clean :: "pandas \<Rightarrow> dataframe \<Rightarrow> dataframe" where
  "clean P df =
     (let kept = filter (\<lambda>r. \<not> list_all (\<lambda>x. x = NA) r) (rows df) in
      if kept = [] then \<lparr>columns = [], rows = []\<rparr>
      else
        (let data = filter
               (\<lambda>r. \<not> (looks_like_header P r (columns df) \<or>
                        list_all (\<lambda>t. t \<in> set METADATA_TOKENS) (map lower (astype_str P r))))
               kept
         in df\<lparr>rows := data\<rparr>))"

definition no_data :: "dataframe \<Rightarrow> bool" where
  \<comment> \<open>every row of the table is empty: all its cells are missing\<close>
  "no_data df = list_all (list_all (\<lambda>x. x = NA)) (rows df)"

text \<open>
  \<^verbatim>\<open>
  def _profile_column(self, col: str) -> Dict[str, Any]:
      s = self.df[col]
      col_type = _infer_col_type(s)
      out: Dict[str, Any] = {
          "name": col,
          "type": col_type,
          "nullable": bool(s.isnull().any()),
      }
      if col_type == "numeric":
          s_num = pd.to_numeric(s, errors="coerce")
          out.update(
              mean=float(s_num.mean()),
              std=float(s_num.std(ddof=0)),
              min=float(s_num.min()),
              max=float(s_num.max()),
          )
      elif col_type == "categorical":
          vc = s.value_counts(dropna=True)
          out.update(
              unique=int(vc.size),
              sample_values=[[k, float(vc[k] / len(s))] for k in vc.head(20).index],
          )
      elif col_type == "datetime":
          s_dt = pd.to_datetime(s, errors="coerce")
          out.update(min=str(s_dt.min().date()), max=str(s_dt.max().date()))
      return out

  def profile(self) -> Dict[str, Any]:
      return {
          "columns": [self._profile_column(c) for c in self.df.columns],
          "num_rows": int(len(self.df)),
      }
  \<close>
\<close>

fun cell_json :: "cell \<Rightarrow> json" where
  "cell_json (Str t) = JStr t"
| "cell_json (Num x) = JFloat (Fin x)"
| "cell_json NA = JFloat NaN"

definition profile_series :: "pandas \<Rightarrow> string \<Rightarrow> cell list \<Rightarrow> dict" where
  \<comment> \<open>the body of \<^verbatim>\<open>_profile_column\<close> after \<^verbatim>\<open>s = self.df[col]\<close>\<close>
  "profile_series P col s =
     (let col_type = infer_col_type P s;
          out = [(''name'', JStr col), (''type'', JStr col_type),
                 (''nullable'', JBool (list_ex (\<lambda>x. x = NA) s))]
      in if col_type = ''numeric'' then
           (let s_num = to_numeric_coerce P s
            in out @ [(''mean'', JFloat (series_mean s_num)), (''std'', JFloat (series_std0 s_num)),
                      (''min'', JFloat (series_min s_num)), (''max'', JFloat (series_max s_num))])
         else if col_type = ''categorical'' then
           (let vc = value_counts s
            in out @ [(''unique'', JInt (int (length vc))),
                      (''sample_values'',
                       JArr (map (\<lambda>(k, c). JArr [cell_json k, JFloat (Fin (real c / real (length s)))])
                              (take 20 vc)))])
         else if col_type = ''datetime'' then
           (let s_dt = to_datetime_coerce P s
            in out @ [(''min'', JStr (date_str s_dt min)), (''max'', JStr (date_str s_dt max))])
         else out)"

definition profile_column :: "pandas \<Rightarrow> dataframe \<Rightarrow> string \<Rightarrow> dict" where
  "profile_column P df col = profile_series P col (column_values df col)"

definition profile :: "pandas \<Rightarrow> dataframe \<Rightarrow> dict" where
  "profile P df =
     [(''columns'', JArr (map (\<lambda>c. JObj (profile_column P df c)) (columns df))),
      (''num_rows'', JInt (int (length (rows df))))]"

definition Profiler_profile :: "pandas \<Rightarrow> dataframe \<Rightarrow> dict" where
  \<comment> \<open>\<^verbatim>\<open>Profiler(df).profile()\<close>: the constructor cleans the table\<close>
  "Profiler_profile P df = profile P (clean P df)"

section \<open>An instance of pandas\<close>

text \<open>
  A small instance for tables whose text cells are words that are neither numbers nor dates:
  the sample is the first \<open>k\<close> values, a number parses as itself, a text cell parses as no
  number, no cell parses as a date, and a natural number prints as its digits.
\<close>

fun is_Num :: "cell \<Rightarrow> bool" where
  "is_Num (Num x) = True"
| "is_Num other = False"

fun num_fl :: "cell \<Rightarrow> fl" where
  "num_fl (Num x) = Fin x"
| "num_fl other = NaN"

fun cell_str :: "cell \<Rightarrow> string" where
  "cell_str (Str t) = t"
| "cell_str (Num x) = str_nat (nat \<lfloor>x\<rfloor>)"
| "cell_str NA = ''nan''"

definition pandas0 :: pandas where
  "pandas0 =
     \<lparr> sample42 = take,
       to_numeric_raise =
         (\<lambda>s. if list_all is_Num s then Inr (map num_fl s) else Inl (ValueError Library)),
       to_numeric_coerce = map num_fl,
       to_datetime_coerce = map (\<lambda>x. None),
       astype_str = map cell_str \<rparr>"

section \<open>A contract of pandas on numbers\<close>

definition numbers_parse :: "pandas \<Rightarrow> bool" where
  \<comment> \<open>on a column of numbers: a sample holds numbers, \<^verbatim>\<open>to_numeric\<close> does not raise, and
      coercion gives the numbers themselves\<close>
  "numbers_parse P =
     (\<forall>k xs. list_all is_Num xs \<longrightarrow>
        list_all is_Num (sample42 P k xs) \<and>
        (\<exists>v. to_numeric_raise P xs = Inr v) \<and>
        to_numeric_coerce P xs = map num_fl xs)"

section \<open>The validator\<close>

lemma check_columns_ValueError:
  "list_all is_descriptor cols \<Longrightarrow>
   is_ValueError (check_columns cols) = (\<exists>c \<in> set cols. lacks_name_or_type c)"
proof (induction cols rule: check_columns.induct)
  case 1
  show ?case by simp
next
  case (2 col rest)
  then show ?case by (cases "has_keys col") auto
qed auto

lemma check_columns_outcome:
  "list_all is_descriptor cols \<Longrightarrow>
   check_columns cols = Inr () \<or> is_ValueError (check_columns cols)"
proof (induction cols rule: check_columns.induct)
  case 1
  show ?case by simp
next
  case (2 col rest)
  then show ?case by (cases "has_keys col") auto
qed auto

text \<open>
  C7. On a document whose \<^verbatim>\<open>columns\<close> entry, if present, is a list of column descriptors,
  \<^verbatim>\<open>validate_schema\<close> raises its malformed-schema error (a ValueError) exactly when the document
  has no \<^verbatim>\<open>columns\<close> key or some descriptor lacks \<^verbatim>\<open>name\<close> or \<^verbatim>\<open>type\<close>, and returns normally
  otherwise; it raises on \<^verbatim>\<open>{}\<close> and on \<^verbatim>\<open>{"columns": [{"name": "x"}]}\<close>; the document after
  the call is the document before it.
\<close>

theorem validate_schema_raises_iff:
  assumes "map_of s ''columns'' = None \<or> descriptors_of s \<noteq> None"
  shows "(is_ValueError (validate_schema s) =
            (map_of s ''columns'' = None \<or>
             (\<exists>cols. descriptors_of s = Some cols \<and> (\<exists>c \<in> set cols. lacks_name_or_type c)))) \<and>
         (\<not> is_ValueError (validate_schema s) \<longrightarrow> validate_schema s = Inr ()) \<and>
         is_ValueError (validate_schema []) \<and>
         is_ValueError (validate_schema [(''columns'', JArr [JObj [(''name'', JStr ''x'')]])]) \<and>
         snd (validate_schema_run s) = s"
proof -
  have empty: "is_ValueError (validate_schema [])"
    by (simp add: validate_schema_def)
  have no_type: "is_ValueError (validate_schema [(''columns'', JArr [JObj [(''name'', JStr ''x'')]])])"
    by (simp add: validate_schema_def has_keys_def)
  have same: "snd (validate_schema_run s) = s"
    by (simp add: validate_schema_run_def)
  have iff: "is_ValueError (validate_schema s) =
           (map_of s ''columns'' = None \<or>
            (\<exists>cols. descriptors_of s = Some cols \<and> (\<exists>c \<in> set cols. lacks_name_or_type c)))"
  proof (cases "map_of s ''columns''")
    case None
    then show ?thesis by (simp add: validate_schema_def)
  next
    case (Some v)
    with assms obtain cols where d: "descriptors_of s = Some cols" by auto
    with Some have v: "v = JArr cols" and ok: "list_all is_descriptor cols"
      by (auto simp: descriptors_of_def split: json.splits if_splits)
    show ?thesis
      using Some d v check_columns_ValueError [OF ok] by (simp add: validate_schema_def)
  qed
  have else_ok: "\<not> is_ValueError (validate_schema s) \<longrightarrow> validate_schema s = Inr ()"
  proof (cases "map_of s ''columns''")
    case None
    then show ?thesis by (simp add: validate_schema_def)
  next
    case (Some v)
    with assms obtain cols where d: "descriptors_of s = Some cols" by auto
    with Some have v: "v = JArr cols" and ok: "list_all is_descriptor cols"
      by (auto simp: descriptors_of_def split: json.splits if_splits)
    show ?thesis
      using Some v check_columns_outcome [OF ok] by (auto simp: validate_schema_def)
  qed
  from iff else_ok empty no_type same show ?thesis by blast
qed

theorem validate_schema_raises_iff_witness:
  "is_ValueError (validate_schema [(''columns'', JArr [JObj [(''type'', JStr ''numeric'')]])]) \<and>
   validate_schema
     [(''columns'', JArr [JObj [(''name'', JStr ''age''), (''type'', JStr ''int'')],
                          JObj [(''name'', JStr ''name''), (''type'', JStr ''str'')]])] = Inr ()"
  using validate_schema_raises_iff [of "[(''columns'', JArr [JObj [(''type'', JStr ''numeric'')]])]"]
    validate_schema_raises_iff
      [of "[(''columns'', JArr [JObj [(''name'', JStr ''age''), (''type'', JStr ''int'')],
                                JObj [(''name'', JStr ''name''), (''type'', JStr ''str'')]])]"]
  by (simp add: descriptors_of_def has_keys_def)

section \<open>The numeric sampler\<close>

lemma to_double_fits:
  assumes "to_double i = Inr (Fin x)"
  shows "x = real_of_int i \<and> \<bar>real_of_int i\<bar> < DBL_LIMIT"
  using assms by (auto simp: to_double_def split: if_splits)

lemma num_sixth:
  assumes "num_double l = Inr (Fin lo)" "num_double h = Inr (Fin hi)"
  shows "\<exists>d. num_sub h l = Inr d \<and> py_div6 d = Inr (Fin ((hi - lo) / 6))"
proof (cases l)
  case (PyInt a)
  with assms(1) have a: "lo = real_of_int a" "\<bar>real_of_int a\<bar> < DBL_LIMIT" "to_double a = Inr (Fin lo)"
    using to_double_fits [of a lo] by simp_all
  show ?thesis
  proof (cases h)
    case (PyInt b)
    with assms(2) have b: "hi = real_of_int b" "\<bar>real_of_int b\<bar> < DBL_LIMIT"
      using to_double_fits [of b hi] by simp_all
    have "\<bar>real_of_int (b - a) / 6\<bar> < DBL_LIMIT"
      using a(2) b(2) by simp
    then show ?thesis using \<open>l = PyInt a\<close> PyInt a(1) b(1) by simp
  next
    case (PyFloat y)
    with assms(2) have "y = Fin hi" by simp
    then show ?thesis using \<open>l = PyInt a\<close> PyFloat a(3) by simp
  qed
next
  case (PyFloat x)
  with assms(1) have x: "x = Fin lo" by simp
  show ?thesis
  proof (cases h)
    case (PyInt b)
    with assms(2) have "to_double b = Inr (Fin hi)" by simp
    then show ?thesis using \<open>l = PyFloat x\<close> PyInt x by simp
  next
    case (PyFloat y)
    with assms(2) have "y = Fin hi" by simp
    then show ?thesis using \<open>l = PyFloat x\<close> PyFloat x by simp
  qed
qed

lemma py_sixth:
  assumes "as_double low = Inr (Fin lo)" "as_double high = Inr (Fin hi)"
  shows "\<exists>d. py_sub high low = Inr d \<and> py_div6 d = Inr (Fin ((hi - lo) / 6))"
proof -
  from assms(1) obtain l where l: "as_num low = Some l" "num_double l = Inr (Fin lo)"
    by (auto simp: as_double_def split: option.splits)
  from assms(2) obtain h where h: "as_num high = Some h" "num_double h = Inr (Fin hi)"
    by (auto simp: as_double_def split: option.splits)
  from num_sixth [OF l(2) h(2)] l(1) h(1) show ?thesis by (simp add: py_sub_def)
qed

lemma np_clip_Fin:
  "np_clip (Fin z) (Fin lo) (Fin hi) = Fin (min (max z lo) hi)"
  by (simp add: np_clip_def)

lemma np_clip_bounds:
  assumes "lo \<le> hi"
  shows "in_bounds lo hi (np_clip (Fin z) (Fin lo) (Fin hi)) \<and>
         (lo \<le> z \<and> z \<le> hi \<longrightarrow> np_clip (Fin z) (Fin lo) (Fin hi) = Fin z)"
  using assms by (auto simp: np_clip_Fin)

lemma sigma_max:
  "py_max (Fin ((hi - lo) / 6)) (Fin (1 / 10 ^ 9)) = Fin (spec_sigma lo hi)"
  by (simp add: py_max_def spec_sigma_def max_def)

lemma sample_numeric_run:
  assumes fields: "map_of c ''min'' = Some low" "map_of c ''max'' = Some high"
      "map_of c ''mean'' = Some mu"
    and nums: "as_double low = Inr (Fin lo)" "as_double high = Inr (Fin hi)"
  shows "sample_numeric L c n st =
           (case np_random_normal L mu (Fin (spec_sigma lo hi)) n st of
              (Inl e, st1) \<Rightarrow> (Inl e, st1)
            | (Inr zs, st1) \<Rightarrow> (Inr (map (\<lambda>z. np_clip z (Fin lo) (Fin hi)) zs), st1))"
proof -
  from py_sixth [OF nums] obtain d where d: "py_sub high low = Inr d"
    "py_div6 d = Inr (Fin ((hi - lo) / 6))" by blast
  have clip: "np_clip_array zs low high = Inr (map (\<lambda>z. np_clip z (Fin lo) (Fin hi)) zs)" for zs
    using nums by (simp add: np_clip_array_def)
  show ?thesis
    unfolding sample_numeric_def lookup_def
    by (simp only: fields d option.case sum.case sigma_max Let_def clip)
qed

text \<open>
  C1 (as amended). For a numeric column schema whose \<^verbatim>\<open>min\<close> and \<^verbatim>\<open>max\<close> are numbers that a float
  holds, with \<open>min \<le> max\<close>, the sampler calls \<^verbatim>\<open>np.random.normal\<close> with the schema's mean and the
  standard deviation \<open>max ((max - min) / 6) 1e-9\<close>, which is positive, and clips every draw, one
  value per draw: a draw that is a number gives a number of \<open>[min, max]\<close>, the draw itself when
  it was inside; a draw that is NaN gives NaN. When \<^verbatim>\<open>min\<close> and \<^verbatim>\<open>max\<close> are ints whose difference
  divided by 6 is beyond the floats, or one is a float and the other an int beyond the floats,
  the sampler raises OverflowError and draws nothing.
\<close>

theorem sample_numeric_within_bounds:
  assumes fields: "map_of c ''min'' = Some low" "map_of c ''max'' = Some high"
      "map_of c ''mean'' = Some mu"
  shows
  "(\<forall>lo hi. as_double low = Inr (Fin lo) \<and> as_double high = Inr (Fin hi) \<and> lo \<le> hi \<longrightarrow>
      0 < spec_sigma lo hi \<and>
      sample_numeric L c n st =
        (case np_random_normal L mu (Fin (spec_sigma lo hi)) n st of
           (Inl e, st1) \<Rightarrow> (Inl e, st1)
         | (Inr zs, st1) \<Rightarrow> (Inr (map (\<lambda>z. np_clip z (Fin lo) (Fin hi)) zs), st1)) \<and>
      (\<forall>z. in_bounds lo hi (np_clip (Fin z) (Fin lo) (Fin hi)) \<and>
           (lo \<le> z \<and> z \<le> hi \<longrightarrow> np_clip (Fin z) (Fin lo) (Fin hi) = Fin z)) \<and>
      np_clip NaN (Fin lo) (Fin hi) = NaN \<and>
      (\<forall>zs st1. np_random_normal L mu (Fin (spec_sigma lo hi)) n st = (Inr zs, st1) \<longrightarrow>
         (\<exists>xs. sample_numeric L c n st = (Inr xs, st1) \<and> length xs = length zs \<and>
               (\<forall>i < length zs.
                  if zs ! i = NaN then xs ! i = NaN else in_bounds lo hi (xs ! i))))) \<and>
   (\<forall>a b. low = JInt a \<and> high = JInt b \<and> DBL_LIMIT \<le> \<bar>real_of_int (b - a) / 6\<bar> \<longrightarrow>
      sample_numeric L c n st = (Inl OverflowError, st)) \<and>
   (\<forall>a x. (low = JInt a \<and> high = JFloat x \<or> low = JFloat x \<and> high = JInt a) \<and>
          DBL_LIMIT \<le> \<bar>real_of_int a\<bar> \<longrightarrow>
      sample_numeric L c n st = (Inl OverflowError, st))"
proof (intro conjI allI impI)
  fix a b
  assume h: "low = JInt a \<and> high = JInt b \<and> DBL_LIMIT \<le> \<bar>real_of_int (b - a) / 6\<bar>"
  then show "sample_numeric L c n st = (Inl OverflowError, st)"
    using fields by (simp add: sample_numeric_def lookup_def py_sub_def)
next
  fix a x
  assume h: "(low = JInt a \<and> high = JFloat x \<or> low = JFloat x \<and> high = JInt a) \<and>
          DBL_LIMIT \<le> \<bar>real_of_int a\<bar>"
  then have "py_sub high low = Inl OverflowError"
    by (auto simp: py_sub_def to_double_def)
  then show "sample_numeric L c n st = (Inl OverflowError, st)"
    using fields by (simp add: sample_numeric_def lookup_def)
next
  fix lo hi
  assume h: "as_double low = Inr (Fin lo) \<and> as_double high = Inr (Fin hi) \<and> lo \<le> hi"
  then have nums: "as_double low = Inr (Fin lo)" "as_double high = Inr (Fin hi)"
    and le: "lo \<le> hi" by simp_all
  note run = sample_numeric_run [OF fields nums, of L n st]
  show "0 < spec_sigma lo hi" by (simp add: spec_sigma_def max_def)
  show "sample_numeric L c n st =
        (case np_random_normal L mu (Fin (spec_sigma lo hi)) n st of
           (Inl e, st1) \<Rightarrow> (Inl e, st1)
         | (Inr zs, st1) \<Rightarrow> (Inr (map (\<lambda>z. np_clip z (Fin lo) (Fin hi)) zs), st1))"
    by (rule run)
  show "np_clip NaN (Fin lo) (Fin hi) = NaN" by (simp add: np_clip_def)
  {
    fix z
    show "in_bounds lo hi (np_clip (Fin z) (Fin lo) (Fin hi))"
      using np_clip_bounds [OF le, of z] by simp
    assume "lo \<le> z \<and> z \<le> hi"
    then show "np_clip (Fin z) (Fin lo) (Fin hi) = Fin z"
      using np_clip_bounds [OF le, of z] by simp
  }
  {
    fix zs st1
    assume draw: "np_random_normal L mu (Fin (spec_sigma lo hi)) n st = (Inr zs, st1)"
    let ?xs = "map (\<lambda>z. np_clip z (Fin lo) (Fin hi)) zs"
    have each: "if zs ! i = NaN then ?xs ! i = NaN else in_bounds lo hi (?xs ! i)"
      if "i < length zs" for i
    proof (cases "zs ! i")
      case (Fin v)
      with that np_clip_bounds [OF le, of v] show ?thesis by simp
    next
      case NaN
      with that show ?thesis by (simp add: np_clip_def)
    qed
    then have all: "\<forall>i < length zs.
        if zs ! i = NaN then ?xs ! i = NaN else in_bounds lo hi (?xs ! i)"
      by blast
    have eq: "sample_numeric L c n st = (Inr ?xs, st1)" using run draw by simp
    have len: "length ?xs = length zs" by simp
    from eq len all
    have "sample_numeric L c n st = (Inr ?xs, st1) \<and> length ?xs = length zs \<and>
          (\<forall>i < length zs. if zs ! i = NaN then ?xs ! i = NaN else in_bounds lo hi (?xs ! i))"
      by blast
    then show "\<exists>xs. sample_numeric L c n st = (Inr xs, st1) \<and> length xs = length zs \<and>
               (\<forall>i < length zs.
                  if zs ! i = NaN then xs ! i = NaN else in_bounds lo hi (xs ! i))"
      by (rule exI)
  }
qed

lemma upt4: "[0 ..< 4] = [0, 1, 2, 3]"
  by (simp add: upt_conv_Cons)

lemma small_doubles:
  "as_double (JInt 0) = Inr (Fin 0)"
  "as_double (JInt 100) = Inr (Fin 100)"
  "as_double (JFloat x) = Inr x"
  by (simp_all add: as_double_def to_double_def DBL_LIMIT_def)

lemma huge_sixth: "DBL_LIMIT \<le> \<bar>real_of_int (10 ^ 400 - 0) / 6\<bar>"
  by (simp add: DBL_LIMIT_def)

lemma huge_int: "DBL_LIMIT \<le> \<bar>real_of_int (10 ^ 400)\<bar>"
  by (simp add: DBL_LIMIT_def)

theorem sample_numeric_within_bounds_witness:
  "as_double (JInt 0) = Inr (Fin 0) \<and> as_double (JInt 100) = Inr (Fin 100) \<and> (0::real) \<le> 100 \<and>
   sample_numeric lib0 [(''min'', JInt 0), (''max'', JInt 100), (''mean'', JFloat (Fin 50))] 4 0 =
     (Inr [Fin 0, Fin 50, Fin 100, Fin 0], 4) \<and>
   DBL_LIMIT \<le> \<bar>real_of_int (10 ^ 400 - 0) / 6\<bar> \<and>
   sample_numeric lib0 [(''min'', JInt 0), (''max'', JInt (10 ^ 400)), (''mean'', JInt 0)] 4 0 =
     (Inl OverflowError, 0) \<and>
   DBL_LIMIT \<le> \<bar>real_of_int (10 ^ 400)\<bar> \<and>
   sample_numeric lib0
     [(''min'', JFloat (Fin 0)), (''max'', JInt (10 ^ 400)), (''mean'', JInt 0)] 4 0 =
     (Inl OverflowError, 0)"
proof -
  have call: "np_random_normal lib0 (JFloat (Fin 50)) (Fin (spec_sigma 0 100)) 4 0 =
      (Inr [Fin (50 - 4 * (50 / 3)), Fin 50, Fin (50 + 4 * (50 / 3)), Fin (50 - 4 * (50 / 3))], 4)"
    by (simp add: lib0_def cycle_normal_def small_doubles spec_sigma_def upt4)
  have a: "sample_numeric lib0
      [(''min'', JInt 0), (''max'', JInt 100), (''mean'', JFloat (Fin 50))] 4 0 =
     (Inr [Fin 0, Fin 50, Fin 100, Fin 0], 4)"
    using sample_numeric_within_bounds
      [of "[(''min'', JInt 0), (''max'', JInt 100), (''mean'', JFloat (Fin 50))]"
        "JInt 0" "JInt 100" "JFloat (Fin 50)" lib0 4 0]
    by (simp add: small_doubles call np_clip_def)
  define big :: int where "big = 10 ^ 400"
  have sixth: "DBL_LIMIT \<le> \<bar>real_of_int (big - 0) / 6\<bar>"
    unfolding big_def by (rule huge_sixth)
  have whole: "DBL_LIMIT \<le> \<bar>real_of_int big\<bar>"
    unfolding big_def by (rule huge_int)
  have "sample_numeric lib0 [(''min'', JInt 0), (''max'', JInt big), (''mean'', JInt 0)] 4 0 =
     (Inl OverflowError, 0)"
    using sample_numeric_within_bounds
      [of "[(''min'', JInt 0), (''max'', JInt big), (''mean'', JInt 0)]"
        "JInt 0" "JInt big" "JInt 0" lib0 4 0] sixth
    by simp
  then have b: "sample_numeric lib0
      [(''min'', JInt 0), (''max'', JInt (10 ^ 400)), (''mean'', JInt 0)] 4 0 =
     (Inl OverflowError, 0)"
    unfolding big_def .
  have "sample_numeric lib0
      [(''min'', JFloat (Fin 0)), (''max'', JInt big), (''mean'', JInt 0)] 4 0 =
     (Inl OverflowError, 0)"
    using sample_numeric_within_bounds
      [of "[(''min'', JFloat (Fin 0)), (''max'', JInt big), (''mean'', JInt 0)]"
        "JFloat (Fin 0)" "JInt big" "JInt 0" lib0 4 0] whole
    by simp
  then have m: "sample_numeric lib0
      [(''min'', JFloat (Fin 0)), (''max'', JInt (10 ^ 400)), (''mean'', JInt 0)] 4 0 =
     (Inl OverflowError, 0)"
    unfolding big_def .
  have le: "(0::real) \<le> 100" by simp
  from small_doubles(1,2) le a huge_sixth b huge_int m show ?thesis by (intro conjI)
qed

text \<open>
  The claim C1 as it was stated fails: with \<^verbatim>\<open>min = 0\<close>, \<^verbatim>\<open>max = 100\<close> and the mean NaN (which
  \<^verbatim>\<open>json\<close> reads), the draws are NaN and so are the values of the column, none of them in
  \<open>[0, 100]\<close>.
\<close>

theorem sample_numeric_nan_mean:
  "as_double (JInt 0) = Inr (Fin 0) \<and> as_double (JInt 100) = Inr (Fin 100) \<and>
   sample_numeric lib0 [(''min'', JInt 0), (''max'', JInt 100), (''mean'', JFloat NaN)] 2 0 =
     (Inr [NaN, NaN], 2) \<and>
   in_bounds 0 100 NaN = False"
proof -
  have n2: "[0 ..< 2] = [0, 1]" by (simp add: upt_conv_Cons)
  have d: "py_sub (JInt 100) (JInt 0) = Inr (PyInt 100)" by (simp add: py_sub_def)
  have "sample_numeric lib0 [(''min'', JInt 0), (''max'', JInt 100), (''mean'', JFloat NaN)] 2 0 =
     (Inr [NaN, NaN], 2)"
    by (simp add: sample_numeric_def lookup_def d DBL_LIMIT_def py_max_def lib0_def
        cycle_normal_def small_doubles n2 np_clip_array_def np_clip_def)
  with small_doubles(1,2) show ?thesis by simp
qed

section \<open>The categorical sampler\<close>

lemma floor_index:
  assumes "0 \<le> u" "u < 1" "0 < k"
  shows "0 \<le> \<lfloor>u * real k\<rfloor> \<and> \<lfloor>u * real k\<rfloor> < int k"
proof -
  have "0 \<le> u * real k" using assms by simp
  moreover have "u * real k < real k" using assms by simp
  ultimately show ?thesis by (simp add: floor_less_iff)
qed

lemma py_index_floor:
  assumes "0 \<le> u" "u < 1" "population \<noteq> []"
  shows "py_index population \<lfloor>u * real (length population)\<rfloor> =
         Inr (population ! nat \<lfloor>u * real (length population)\<rfloor>)"
proof -
  have "0 < length population" using assms(3) by simp
  from floor_index [OF assms(1,2) this] show ?thesis
    by (simp add: py_index_def)
qed

lemma choices_loop_draws:
  assumes "\<forall>s. 0 \<le> fst (rnd s) \<and> fst (rnd s) < 1" "population \<noteq> []"
  shows "choices_loop rnd population k st =
           (Inr (map (\<lambda>u. population ! nat \<lfloor>u * real (length population)\<rfloor>) (draws rnd k st)),
            state_after rnd k st)"
proof (induction k arbitrary: st)
  case 0
  show ?case by simp
next
  case (Suc k)
  obtain u st1 where r: "rnd st = (u, st1)" by (cases "rnd st")
  with assms(1) have u: "0 \<le> u" "u < 1" by (metis fst_conv)+
  show ?case
    using r Suc [of st1] py_index_floor [OF u assms(2)] by simp
qed

lemma draws_length: "length (draws rnd k st) = k"
  by (induction k arbitrary: st) auto

lemma draws_unit:
  assumes "\<forall>s. 0 \<le> fst (rnd s) \<and> fst (rnd s) < 1"
  shows "u \<in> set (draws rnd k st) \<Longrightarrow> 0 \<le> u \<and> u < 1"
  using assms by (induction k arbitrary: st) auto

lemma each_item0_pairs:
  "those (map pair_value ps) = Some vs \<Longrightarrow> each_item0 ps = Inr vs"
proof (induction ps arbitrary: vs)
  case Nil
  then show ?case by simp
next
  case (Cons p ps)
  from Cons.prems obtain v vs' where v: "pair_value p = Some v" and vs': "those (map pair_value ps) = Some vs'"
    and eq: "vs = v # vs'"
    by (auto split: option.splits)
  from v obtain f where p: "p = JArr [v, f]"
    by (cases p rule: pair_value.cases) auto
  show ?case using Cons.IH [OF vs'] p eq by simp
qed

lemma as_list_pairs:
  assumes "ps \<noteq> []" "those (map pair_value ps) = Some vs"
  shows "as_list L (JArr ps) = Inr (map (py_str L) vs)"
proof -
  from assms(1) obtain p rest where ps: "ps = p # rest" by (cases ps) auto
  with assms(2) obtain v where v: "pair_value p = Some v" by (auto split: option.splits)
  then obtain f where p: "p = JArr [v, f]" by (cases p rule: pair_value.cases) auto
  have "item0 (JArr ps) = Inr p" by (simp add: ps)
  moreover have "is_list p" by (simp add: p)
  ultimately show ?thesis
    using assms each_item0_pairs [OF assms(2)] by (simp add: as_list_def)
qed

lemma as_list_flat:
  assumes "xs \<noteq> []" "\<not> is_list (hd xs)"
  shows "as_list L (JArr xs) = Inr (map (py_str L) xs)"
proof -
  from assms(1) obtain x rest where xs: "xs = x # rest" by (cases xs) auto
  with assms(2) show ?thesis by (simp add: as_list_def)
qed

lemma those_length: "those xs = Some ys \<Longrightarrow> length ys = length xs"
  by (induction xs arbitrary: ys) (auto split: option.splits)

lemma floor_interval:
  assumes "0 < k" "0 \<le> u"
  shows "(nat \<lfloor>u * real k\<rfloor> = j) = (real j / real k \<le> u \<and> u < (real j + 1) / real k)"
proof -
  have nn: "0 \<le> u * real k" using assms by simp
  have "(nat \<lfloor>u * real k\<rfloor> = j) = (\<lfloor>u * real k\<rfloor> = int j)"
    using nn by (simp add: nat_eq_iff)
  also have "\<dots> = (real j \<le> u * real k \<and> u * real k < real j + 1)"
    by (simp add: floor_eq_iff)
  also have "\<dots> = (real j / real k \<le> u \<and> u < (real j + 1) / real k)"
    using assms(1) by (simp add: pos_divide_le_eq pos_less_divide_eq)
  finally show ?thesis .
qed


lemma placeholders_positive:
  assumes "map_of c ''unique'' = Some (JInt u) \<or> map_of c ''unique'' = None \<and> u = 5"
  shows "placeholders c = Inr (map (\<lambda>i. ''cat'' @ str_nat i) [0 ..< nat u])"
  using assms by (auto simp: placeholders_def get_or_def)

lemma as_list_absent:
  assumes "map_of c ''sample_values'' = None \<or> map_of c ''sample_values'' = Some (JArr [])"
  shows "as_list L (get_or c ''sample_values'' JNull) = Inr []"
  using assms by (auto simp: as_list_def get_or_def)

text \<open>
  C6. With draws of \<^verbatim>\<open>random.random()\<close> in the half-open unit interval: for a categorical
  schema whose \<^verbatim>\<open>sample_values\<close> is a non-empty list of \<open>k\<close> entries (pairs of a value and its
  frequency, or plain values), the sampler returns \<open>N\<close> values, the \<open>i\<close>-th being the \<^verbatim>\<open>str\<close> of
  the listed value at position \<open>\<lfloor>u\<^sub>i k\<rfloor> < k\<close> for the \<open>i\<close>-th draw \<open>u\<^sub>i\<close>: the frequencies play
  no part, and position \<open>j\<close> is chosen exactly when the draw falls in \<open>[j/k, (j+1)/k)\<close>, an
  interval of length \<open>1/k\<close> for every \<open>j\<close>. When \<^verbatim>\<open>sample_values\<close> is absent or empty, the values
  are drawn in the same way from the labels \<^verbatim>\<open>cat0\<close> ... \<^verbatim>\<open>cat{unique-1}\<close>, where \<^verbatim>\<open>unique\<close> is at
  least 1 and counts as 5 when the schema has none.
\<close>

theorem sample_categorical_uniform:
  assumes "unit_draws L"
  shows
   "(\<forall>ps vs. map_of c ''sample_values'' = Some (JArr ps) \<and> ps \<noteq> [] \<and>
             (those (map pair_value ps) = Some vs \<or> \<not> is_list (hd ps) \<and> vs = ps) \<longrightarrow>
       sample_categorical L c n st =
         (Inr (map (\<lambda>u. py_str L (vs ! nat \<lfloor>u * real (length vs)\<rfloor>))
                 (draws (random_random L) (nat n) st)),
          state_after (random_random L) (nat n) st) \<and>
       length vs = length ps \<and>
       (\<forall>u \<in> set (draws (random_random L) (nat n) st). nat \<lfloor>u * real (length vs)\<rfloor> < length vs)) \<and>
    (\<forall>k. (map_of c ''sample_values'' = None \<or> map_of c ''sample_values'' = Some (JArr [])) \<and>
         (map_of c ''unique'' = Some (JInt k) \<or> map_of c ''unique'' = None \<and> k = 5) \<and> 1 \<le> k \<longrightarrow>
       sample_categorical L c n st =
         (Inr (map (\<lambda>u. ''cat'' @ str_nat (nat \<lfloor>u * real_of_int k\<rfloor>))
                 (draws (random_random L) (nat n) st)),
          state_after (random_random L) (nat n) st) \<and>
       (\<forall>u \<in> set (draws (random_random L) (nat n) st). nat \<lfloor>u * real_of_int k\<rfloor> < nat k)) \<and>
    (\<forall>k u j. 0 < k \<and> 0 \<le> u \<longrightarrow>
       (nat \<lfloor>u * real k\<rfloor> = j) = (real j / real k \<le> u \<and> u < (real j + 1) / real k)) \<and>
    length (draws (random_random L) (nat n) st) = nat n"
proof -
  let ?rnd = "random_random L"
  let ?ds = "draws ?rnd (nat n) st"
  from assms have unit: "\<forall>s. 0 \<le> fst (?rnd s) \<and> fst (?rnd s) < 1"
    by (simp add: unit_draws_def)
  have index: "nat \<lfloor>u * real k\<rfloor> < k" if "u \<in> set ?ds" "0 < k" for u k
  proof -
    from draws_unit [OF unit that(1)] have "0 \<le> u" "u < 1" by simp_all
    from floor_index [OF this that(2)] show ?thesis by (simp only: nat_less_iff)
  qed
  have listed: "sample_categorical L c n st =
         (Inr (map (\<lambda>u. py_str L (vs ! nat \<lfloor>u * real (length vs)\<rfloor>)) ?ds),
          state_after ?rnd (nat n) st) \<and>
       length vs = length ps \<and>
       (\<forall>u \<in> set ?ds. nat \<lfloor>u * real (length vs)\<rfloor> < length vs)"
    if sv: "map_of c ''sample_values'' = Some (JArr ps)" and ne: "ps \<noteq> []"
      and shape: "those (map pair_value ps) = Some vs \<or> \<not> is_list (hd ps) \<and> vs = ps" for ps vs
  proof -
    have len: "length vs = length ps"
      using shape those_length [of "map pair_value ps" vs] by auto
    with ne have vs: "map (py_str L) vs \<noteq> []" by auto
    have "as_list L (JArr ps) = Inr (map (py_str L) vs)"
      using shape as_list_pairs [OF ne, of vs L] as_list_flat [OF ne, of L] by blast
    then have al: "as_list L (get_or c ''sample_values'' JNull) = Inr (map (py_str L) vs)"
      using sv by (simp add: get_or_def)
    have "sample_categorical L c n st =
            choices_loop ?rnd (map (py_str L) vs) (nat n) st"
      using al vs by (simp add: sample_categorical_def random_choices_def)
    also have "\<dots> = (Inr (map (\<lambda>u. map (py_str L) vs ! nat \<lfloor>u * real (length (map (py_str L) vs))\<rfloor>) ?ds),
          state_after ?rnd (nat n) st)"
      by (rule choices_loop_draws [OF unit vs])
    also have "map (\<lambda>u. map (py_str L) vs ! nat \<lfloor>u * real (length (map (py_str L) vs))\<rfloor>) ?ds =
               map (\<lambda>u. py_str L (vs ! nat \<lfloor>u * real (length vs)\<rfloor>)) ?ds"
      using index len ne by (intro map_cong) auto
    finally show ?thesis using len index ne by auto
  qed
  have labels: "sample_categorical L c n st =
         (Inr (map (\<lambda>u. ''cat'' @ str_nat (nat \<lfloor>u * real_of_int k\<rfloor>)) ?ds),
          state_after ?rnd (nat n) st) \<and>
       (\<forall>u \<in> set ?ds. nat \<lfloor>u * real_of_int k\<rfloor> < nat k)"
    if sv: "map_of c ''sample_values'' = None \<or> map_of c ''sample_values'' = Some (JArr [])"
      and un: "map_of c ''unique'' = Some (JInt k) \<or> map_of c ''unique'' = None \<and> k = 5"
      and pos: "1 \<le> k" for k
  proof -
    let ?cats = "map (\<lambda>i. ''cat'' @ str_nat i) [0 ..< nat k]"
    from pos have ne: "?cats \<noteq> []" by simp
    from pos have k: "real (nat k) = real_of_int k" by simp
    have "sample_categorical L c n st = choices_loop ?rnd ?cats (nat n) st"
      using as_list_absent [OF sv, of L] placeholders_positive [OF un]
      by (simp add: sample_categorical_def random_choices_def)
    also have "\<dots> = (Inr (map (\<lambda>u. ?cats ! nat \<lfloor>u * real (length ?cats)\<rfloor>) ?ds),
          state_after ?rnd (nat n) st)"
      by (rule choices_loop_draws [OF unit ne])
    also have "map (\<lambda>u. ?cats ! nat \<lfloor>u * real (length ?cats)\<rfloor>) ?ds =
               map (\<lambda>u. ''cat'' @ str_nat (nat \<lfloor>u * real_of_int k\<rfloor>)) ?ds"
    proof (intro map_cong refl)
      fix u assume "u \<in> set ?ds"
      from index [OF this, of "nat k"] pos have "nat \<lfloor>u * real (nat k)\<rfloor> < nat k" by simp
      then show "?cats ! nat \<lfloor>u * real (length ?cats)\<rfloor> = ''cat'' @ str_nat (nat \<lfloor>u * real_of_int k\<rfloor>)"
        using k by simp
    qed
    finally have run: "sample_categorical L c n st =
         (Inr (map (\<lambda>u. ''cat'' @ str_nat (nat \<lfloor>u * real_of_int k\<rfloor>)) ?ds),
          state_after ?rnd (nat n) st)" .
    have "nat \<lfloor>u * real_of_int k\<rfloor> < nat k" if "u \<in> set ?ds" for u
      using index [OF that, of "nat k"] pos k by simp
    with run show ?thesis by blast
  qed
  have interval: "(nat \<lfloor>u * real k\<rfloor> = j) = (real j / real k \<le> u \<and> u < (real j + 1) / real k)"
    if "0 < k" "0 \<le> u" for k :: nat and u j
    using floor_interval [OF that] .
  have A: "\<forall>ps vs. map_of c ''sample_values'' = Some (JArr ps) \<and> ps \<noteq> [] \<and>
             (those (map pair_value ps) = Some vs \<or> \<not> is_list (hd ps) \<and> vs = ps) \<longrightarrow>
       sample_categorical L c n st =
         (Inr (map (\<lambda>u. py_str L (vs ! nat \<lfloor>u * real (length vs)\<rfloor>)) ?ds),
          state_after ?rnd (nat n) st) \<and>
       length vs = length ps \<and>
       (\<forall>u \<in> set ?ds. nat \<lfloor>u * real (length vs)\<rfloor> < length vs)"
  proof (intro allI impI, elim conjE)
    fix ps vs
    assume 1: "map_of c ''sample_values'' = Some (JArr ps)" and 2: "ps \<noteq> []"
      and 3: "those (map pair_value ps) = Some vs \<or> \<not> is_list (hd ps) \<and> vs = ps"
    show "sample_categorical L c n st =
         (Inr (map (\<lambda>u. py_str L (vs ! nat \<lfloor>u * real (length vs)\<rfloor>)) ?ds),
          state_after ?rnd (nat n) st) \<and>
       length vs = length ps \<and>
       (\<forall>u \<in> set ?ds. nat \<lfloor>u * real (length vs)\<rfloor> < length vs)"
      by (rule listed [OF 1 2 3])
  qed
  have B: "\<forall>k. (map_of c ''sample_values'' = None \<or> map_of c ''sample_values'' = Some (JArr [])) \<and>
         (map_of c ''unique'' = Some (JInt k) \<or> map_of c ''unique'' = None \<and> k = 5) \<and> 1 \<le> k \<longrightarrow>
       sample_categorical L c n st =
         (Inr (map (\<lambda>u. ''cat'' @ str_nat (nat \<lfloor>u * real_of_int k\<rfloor>)) ?ds),
          state_after ?rnd (nat n) st) \<and>
       (\<forall>u \<in> set ?ds. nat \<lfloor>u * real_of_int k\<rfloor> < nat k)"
  proof (intro allI impI, elim conjE)
    fix k
    assume 1: "map_of c ''sample_values'' = None \<or> map_of c ''sample_values'' = Some (JArr [])"
      and 2: "map_of c ''unique'' = Some (JInt k) \<or> map_of c ''unique'' = None \<and> k = 5"
      and 3: "1 \<le> k"
    show "sample_categorical L c n st =
         (Inr (map (\<lambda>u. ''cat'' @ str_nat (nat \<lfloor>u * real_of_int k\<rfloor>)) ?ds),
          state_after ?rnd (nat n) st) \<and>
       (\<forall>u \<in> set ?ds. nat \<lfloor>u * real_of_int k\<rfloor> < nat k)"
      by (rule labels [OF 1 2 3])
  qed
  have C: "\<forall>k u j. 0 < k \<and> 0 \<le> u \<longrightarrow>
       (nat \<lfloor>u * real k\<rfloor> = j) = (real j / real k \<le> u \<and> u < (real j + 1) / real k)"
    using interval by blast
  have D: "length ?ds = nat n" by (rule draws_length)
  show ?thesis by (rule conjI [OF A conjI [OF B conjI [OF C D]]])
qed

theorem sample_categorical_uniform_witness:
  "unit_draws lib0 \<and>
   sample_categorical lib0
     [(''sample_values'', JArr [JArr [JStr ''red'', JFloat (Fin (9 / 10))],
                                JArr [JStr ''blue'', JFloat (Fin (1 / 10))]])] 5 3 =
     (Inr [''red'', ''red'', ''blue'', ''blue'', ''blue''], 8) \<and>
   sample_categorical lib0 [(''unique'', JInt 2)] 3 4 = (Inr [''cat0'', ''cat1'', ''cat1''], 7)"
proof -
  have unit: "unit_draws lib0"
    by (simp add: unit_draws_def lib0_def)
  have n5: "(5::nat) = Suc (Suc (Suc (Suc (Suc 0))))" and n3: "(3::nat) = Suc (Suc (Suc 0))"
    by simp_all
  have d1: "draws (random_random lib0) 5 3 = [3 / 10, 4 / 10, 5 / 10, 6 / 10, 7 / 10]"
    unfolding n5 by (simp add: lib0_def)
  have s1: "state_after (random_random lib0) 5 3 = 8"
    unfolding n5 by (simp add: lib0_def)
  have d2: "draws (random_random lib0) 3 4 = [4 / 10, 5 / 10, 6 / 10]"
    unfolding n3 by (simp add: lib0_def)
  have s2: "state_after (random_random lib0) 3 4 = 7"
    unfolding n3 by (simp add: lib0_def)
  note t1 = sample_categorical_uniform [OF unit,
      of "[(''sample_values'', JArr [JArr [JStr ''red'', JFloat (Fin (9 / 10))],
                                JArr [JStr ''blue'', JFloat (Fin (1 / 10))]])]" 5 3]
  note t2 = sample_categorical_uniform [OF unit, of "[(''unique'', JInt 2)]" 3 4]
  have r1: "sample_categorical lib0
     [(''sample_values'', JArr [JArr [JStr ''red'', JFloat (Fin (9 / 10))],
                                JArr [JStr ''blue'', JFloat (Fin (1 / 10))]])] 5 3 =
     (Inr [''red'', ''red'', ''blue'', ''blue'', ''blue''], 8)"
    using t1 by (simp add: d1 s1 py_str_def)
  have r2: "sample_categorical lib0 [(''unique'', JInt 2)] 3 4 = (Inr [''cat0'', ''cat1'', ''cat1''], 7)"
    using t2 by (simp add: d2 s2 str_nat.simps)
  from unit r1 r2 show ?thesis by blast
qed

section \<open>The datetime sampler\<close>












lemma converted_parsed:
  assumes "parsed L c k = Some t"
  shows "converted L c k = Some (Timestamp t)"
  using assms by (auto simp: parsed_def split: option.splits datetime.splits)

lemma sample_datetime_returned:
  assumes "converted L c ''min'' = Some d1" "converted L c ''max'' = Some d2"
    "pd_date_range L d1 d2 n = Inr ts"
  shows "sample_datetime L c n = map strftime ts"
proof -
  from assms(1) obtain lo where lo: "map_of c ''min'' = Some lo" "pd_to_datetime L lo = Inr d1"
    by (auto simp: converted_def split: option.splits sum.splits)
  from assms(2) obtain hi where hi: "map_of c ''max'' = Some hi" "pd_to_datetime L hi = Inr d2"
    by (auto simp: converted_def split: option.splits sum.splits)
  from lo hi assms(3) show ?thesis
    by (simp add: sample_datetime_def lookup_def)
qed





lemma parse_2020_01_01: "iso_date ''2020-01-01'' = Some 1577836800000000000"
  by (simp add: iso_date_def digit_val_def days_from_civil_def)

lemma parse_2020_01_02: "iso_date ''2020-01-02'' = Some 1577923200000000000"
  by (simp add: iso_date_def digit_val_def days_from_civil_def)

lemma parse_2020_01_31: "iso_date ''2020-01-31'' = Some 1580428800000000000"
  by (simp add: iso_date_def digit_val_def days_from_civil_def)

lemma strftime_values:
  "strftime 1577836800000000000 = ''2020-01-01''"
  "strftime 1577880000000000000 = ''2020-01-01''"
  "strftime 1577923200000000000 = ''2020-01-02''"
  "strftime 1578700800000000000 = ''2020-01-11''"
  "strftime 1579564800000000000 = ''2020-01-21''"
  "strftime 1580428800000000000 = ''2020-01-31''"
  by code_simp+

lemma upt3: "[0 ..< 3] = [0, 1, 2]"
  by (simp add: upt_conv_Cons)

lemma converted_january:
  "converted lib0 [(''min'', JStr ''2020-01-01''), (''max'', JStr ''2020-01-31'')] ''min'' =
     Some (Timestamp 1577836800000000000)"
  "converted lib0 [(''min'', JStr ''2020-01-01''), (''max'', JStr ''2020-01-31'')] ''max'' =
     Some (Timestamp 1580428800000000000)"
  "converted lib0 [(''min'', JStr ''2020-01-01''), (''max'', JStr ''2020-01-02'')] ''min'' =
     Some (Timestamp 1577836800000000000)"
  "converted lib0 [(''min'', JStr ''2020-01-01''), (''max'', JStr ''2020-01-02'')] ''max'' =
     Some (Timestamp 1577923200000000000)"
  "converted lib0 [(''min'', JStr ''2020-01-01'')] ''max'' = None"
  by (simp_all add: converted_def lib0_def parse_2020_01_01 parse_2020_01_02 parse_2020_01_31)

lemma parsed_january:
  "parsed lib0 [(''min'', JStr ''2020-01-01''), (''max'', JStr ''2020-01-31'')] ''min'' =
     Some 1577836800000000000"
  "parsed lib0 [(''min'', JStr ''2020-01-01''), (''max'', JStr ''2020-01-31'')] ''max'' =
     Some 1580428800000000000"
  "parsed lib0 [(''min'', JStr ''2020-01-01''), (''max'', JStr ''2020-01-02'')] ''min'' =
     Some 1577836800000000000"
  "parsed lib0 [(''min'', JStr ''2020-01-01''), (''max'', JStr ''2020-01-02'')] ''max'' =
     Some 1577923200000000000"
  by (simp_all add: parsed_def converted_january)

lemma steps_values:
  "steps 1577836800000000000 1580428800000000000 4 =
     [1577836800000000000, 1578700800000000000, 1579564800000000000, 1580428800000000000]"
  "steps 1577836800000000000 1577923200000000000 3 =
     [1577836800000000000, 1577880000000000000, 1577923200000000000]"
  by (simp_all add: steps_def upt3 upt4)

lemma range_january:
  "pd_date_range lib0 (Timestamp 1577836800000000000) (Timestamp 1580428800000000000) 4 =
     Inr [1577836800000000000, 1578700800000000000, 1579564800000000000, 1580428800000000000]"
  "pd_date_range lib0 (Timestamp 1577836800000000000) (Timestamp 1577923200000000000) 3 =
     Inr [1577836800000000000, 1577880000000000000, 1577923200000000000]"
proof -
  have n4: "nat 4 = 4" and n3: "nat 3 = 3" by simp_all
  show "pd_date_range lib0 (Timestamp 1577836800000000000) (Timestamp 1580428800000000000) 4 =
     Inr [1577836800000000000, 1578700800000000000, 1579564800000000000, 1580428800000000000]"
    by (simp add: lib0_def n4 steps_values del: nat_numeral)
  show "pd_date_range lib0 (Timestamp 1577836800000000000) (Timestamp 1577923200000000000) 3 =
     Inr [1577836800000000000, 1577880000000000000, 1577923200000000000]"
    by (simp add: lib0_def n3 steps_values del: nat_numeral)
qed



section \<open>The two synthesis modules\<close>

lemma generator_sample_datetime_returned:
  assumes "converted L c ''min'' = Some d1" "converted L c ''max'' = Some d2"
    "pd_date_range L d1 d2 n = Inr ts"
  shows "generator_sample_datetime L c n = Inr (map strftime ts)"
proof -
  from assms(1) obtain lo where lo: "map_of c ''min'' = Some lo" "pd_to_datetime L lo = Inr d1"
    by (auto simp: converted_def split: option.splits sum.splits)
  from assms(2) obtain hi where hi: "map_of c ''max'' = Some hi" "pd_to_datetime L hi = Inr d2"
    by (auto simp: converted_def split: option.splits sum.splits)
  from lo hi assms(3) show ?thesis
    by (simp add: generator_sample_datetime_def lookup_def)
qed

lemma generator_sample_datetime_Inr:
  assumes "generator_sample_datetime L c n = Inr xs"
  shows "\<exists>d1 d2 ts. converted L c ''min'' = Some d1 \<and> converted L c ''max'' = Some d2 \<and>
           pd_date_range L d1 d2 n = Inr ts \<and> xs = map strftime ts"
  using assms
  by (auto simp: generator_sample_datetime_def lookup_def converted_def
      split: option.splits sum.splits)

text \<open>
  C10. On the same column schema, row count and library (the same draws from the same
  generator state), \<^verbatim>\<open>generator._sample_numeric\<close> and \<^verbatim>\<open>synthesizer._sample_numeric\<close> return the
  same result and state. When \<^verbatim>\<open>min\<close> and \<^verbatim>\<open>max\<close> parse to timestamps and \<^verbatim>\<open>pd.date_range\<close>
  returns, \<^verbatim>\<open>generator._sample_datetime\<close> returns the list \<^verbatim>\<open>synthesizer._sample_datetime\<close>
  returns: the days of the instants of the range, which the schema and the row count
  determine (no draw is made). Whenever the generator's sampler returns a list, the
  synthesizer's returns the same list.
\<close>

theorem samplers_agree:
  "generator_sample_numeric L c n st = sample_numeric L c n st \<and>
   (\<forall>t1 t2 ts. parsed L c ''min'' = Some t1 \<and> parsed L c ''max'' = Some t2 \<and>
        pd_date_range L (Timestamp t1) (Timestamp t2) n = Inr ts \<longrightarrow>
      generator_sample_datetime L c n = Inr (sample_datetime L c n) \<and>
      sample_datetime L c n = map strftime ts) \<and>
   (\<forall>xs. generator_sample_datetime L c n = Inr xs \<longrightarrow> sample_datetime L c n = xs)"
proof (intro conjI allI impI)
  show "generator_sample_numeric L c n st = sample_numeric L c n st"
    by (simp only: generator_sample_numeric_def sample_numeric_def)
next
  fix t1 t2 ts
  assume h: "parsed L c ''min'' = Some t1 \<and> parsed L c ''max'' = Some t2 \<and>
        pd_date_range L (Timestamp t1) (Timestamp t2) n = Inr ts"
  then have p: "converted L c ''min'' = Some (Timestamp t1)"
      "converted L c ''max'' = Some (Timestamp t2)"
      "pd_date_range L (Timestamp t1) (Timestamp t2) n = Inr ts"
    by (simp_all add: converted_parsed)
  show "sample_datetime L c n = map strftime ts"
    by (rule sample_datetime_returned [OF p])
  then show "generator_sample_datetime L c n = Inr (sample_datetime L c n)"
    using generator_sample_datetime_returned [OF p] by simp
next
  fix xs
  assume "generator_sample_datetime L c n = Inr xs"
  from generator_sample_datetime_Inr [OF this] obtain d1 d2 ts where
    p: "converted L c ''min'' = Some d1" "converted L c ''max'' = Some d2"
      "pd_date_range L d1 d2 n = Inr ts" and xs: "xs = map strftime ts"
    by blast
  from sample_datetime_returned [OF p] xs show "sample_datetime L c n = xs" by simp
qed

theorem samplers_agree_witness:
  "parsed lib0 [(''min'', JStr ''2020-01-01''), (''max'', JStr ''2020-01-31'')] ''min'' =
     Some 1577836800000000000 \<and>
   parsed lib0 [(''min'', JStr ''2020-01-01''), (''max'', JStr ''2020-01-31'')] ''max'' =
     Some 1580428800000000000 \<and>
   pd_date_range lib0 (Timestamp 1577836800000000000) (Timestamp 1580428800000000000) 4 =
     Inr [1577836800000000000, 1578700800000000000, 1579564800000000000, 1580428800000000000] \<and>
   generator_sample_datetime lib0 [(''min'', JStr ''2020-01-01''), (''max'', JStr ''2020-01-31'')] 4 =
     Inr [''2020-01-01'', ''2020-01-11'', ''2020-01-21'', ''2020-01-31''] \<and>
   sample_datetime lib0 [(''min'', JStr ''2020-01-01''), (''max'', JStr ''2020-01-31'')] 4 =
     [''2020-01-01'', ''2020-01-11'', ''2020-01-21'', ''2020-01-31'']"
proof -
  let ?c = "[(''min'', JStr ''2020-01-01''), (''max'', JStr ''2020-01-31'')]"
  let ?ts = "[1577836800000000000, 1578700800000000000, 1579564800000000000,
              1580428800000000000] :: int list"
  from samplers_agree [of lib0 ?c 4 0]
  have both: "generator_sample_datetime lib0 ?c 4 = Inr (sample_datetime lib0 ?c 4) \<and>
      sample_datetime lib0 ?c 4 = map strftime ?ts"
    using parsed_january(1,2) range_january(1) by blast
  then have s: "sample_datetime lib0 ?c 4 =
      [''2020-01-01'', ''2020-01-11'', ''2020-01-21'', ''2020-01-31'']"
    by (simp only: list.map strftime_values)
  from both have "generator_sample_datetime lib0 ?c 4 = Inr (sample_datetime lib0 ?c 4)"
    by (rule conjunct1)
  then have g: "generator_sample_datetime lib0 ?c 4 =
      Inr [''2020-01-01'', ''2020-01-11'', ''2020-01-21'', ''2020-01-31'']"
    by (simp only: s)
  from g s parsed_january(1,2) range_january(1) show ?thesis by (intro conjI)
qed

section \<open>The generated table\<close>

lemma dict_set_keys:
  "map fst (dict_set cols k v) = insert_new (map fst cols) k"
proof (induction cols)
  case Nil
  show ?case by (simp add: insert_new_def)
next
  case (Cons p cols)
  obtain k' v' where p: "p = (k', v')" by (cases p)
  show ?case
  proof (cases "k' = k")
    case True
    with p show ?thesis by (simp add: insert_new_def)
  next
    case False
    with p Cons.IH show ?thesis by (simp add: insert_new_def)
  qed
qed

lemma sample_column_other:
  assumes "kind \<noteq> JStr ''numeric''" "kind \<noteq> JStr ''datetime''" "kind \<noteq> JStr ''text''"
  shows "sample_column L col kind n st = apfst (map_sum id Strs) (sample_categorical L col n st)"
proof (cases "sample_categorical L col n st")
  case (Pair r st1)
  with assms show ?thesis by (cases r) (simp_all add: sample_column_def)
qed

lemma generate_loop_keys:
  "generate_loop L ds n cols st = (Inr table, st1) \<Longrightarrow>
   map Some (map fst table) = foldl insert_new (map Some (map fst cols)) (map name_key ds)"
proof (induction L ds n cols st rule: generate_loop.induct)
  case (1 L n cols st)
  then show ?case by simp
next
  case (2 L col rest n cols st)
  from "2.prems" obtain kind xs st2 name k where
    kind: "lookup col ''type'' = Inr kind"
    and xs: "sample_column L col kind n st = (Inr xs, st2)"
    and name: "lookup col ''name'' = Inr name"
    and k: "key_of name = Inr k"
    and rest: "generate_loop L rest n (dict_set cols k xs) st2 = (Inr table, st1)"
    by (auto split: sum.splits prod.splits)
  from name k have nk: "name_key (JObj col) = Some k"
    by (auto simp: lookup_def split: option.splits)
  have "map Some (map fst (dict_set cols k xs)) = insert_new (map Some (map fst cols)) (Some k)"
    by (auto simp: dict_set_keys insert_new_def)
  with "2.IH" [OF kind xs [symmetric] refl name k rest] nk show ?case by simp
qed simp_all


lemma foldl_insert_new_distinct:
  "distinct ks \<Longrightarrow> set acc \<inter> set ks = {} \<Longrightarrow> foldl insert_new acc ks = acc @ ks"
proof (induction ks arbitrary: acc)
  case Nil
  show ?case by simp
next
  case (Cons k ks)
  from Cons.prems have "insert_new acc k = acc @ [k]" by (simp add: insert_new_def)
  moreover from Cons.prems have "foldl insert_new (acc @ [k]) ks = (acc @ [k]) @ ks"
    by (intro Cons.IH) auto
  ultimately show ?case by simp
qed

lemma first_occurrences_distinct: "distinct ks \<Longrightarrow> first_occurrences ks = ks"
  using foldl_insert_new_distinct [of ks "[]"] by (simp add: first_occurrences_def)

lemma generate_rows_keys:
  assumes "generate_rows L schema n st = (Inr table, st1)"
  shows "map Some (map fst table) = first_occurrences (map name_key (descriptor_items schema))"
proof -
  from assms obtain v ds cols where v: "map_of schema ''columns'' = Some v"
    and ds: "iterate v = Inr ds"
    and loop: "generate_loop L ds n [] st = (Inr cols, st1)"
    and df: "DataFrame cols = Inr table"
    by (auto simp: generate_rows_def lookup_def split: option.splits sum.splits prod.splits)
  from df have "table = cols"
    by (auto simp: DataFrame_def split: list.splits prod.splits if_splits)
  with generate_loop_keys [OF loop] v ds show ?thesis
    by (simp add: first_occurrences_def descriptor_items_def)
qed

text \<open>
  C9 (as amended). \<^verbatim>\<open>generate_rows\<close> has no branch that rejects a type: a descriptor whose type
  is none of \<^verbatim>\<open>numeric\<close>, \<^verbatim>\<open>datetime\<close>, \<^verbatim>\<open>text\<close> is given to the categorical sampler. Whenever
  the call returns a table (for a schema that passes validation or not), its columns are the
  names of the descriptors, each once, in the order of their first occurrence: with distinct
  names, exactly one column per descriptor, in schema order. The call need not return: a
  sampler may raise on a descriptor that lacks a field it reads.
\<close>

theorem generate_rows_columns:
  "(kind \<noteq> JStr ''numeric'' \<and> kind \<noteq> JStr ''datetime'' \<and> kind \<noteq> JStr ''text'' \<longrightarrow>
      sample_column L col kind n st = apfst (map_sum id Strs) (sample_categorical L col n st)) \<and>
   (\<forall>table st1. generate_rows L schema n st = (Inr table, st1) \<longrightarrow>
      map Some (map fst table) = first_occurrences (map name_key (descriptor_items schema)) \<and>
      (distinct (map name_key (descriptor_items schema)) \<longrightarrow>
         map Some (map fst table) = map name_key (descriptor_items schema) \<and>
         length table = length (descriptor_items schema)))"
proof (intro conjI allI impI)
  assume "kind \<noteq> JStr ''numeric'' \<and> kind \<noteq> JStr ''datetime'' \<and> kind \<noteq> JStr ''text''"
  then show "sample_column L col kind n st =
      apfst (map_sum id Strs) (sample_categorical L col n st)"
    by (intro sample_column_other) simp_all
next
  fix table st1
  assume run: "generate_rows L schema n st = (Inr table, st1)"
  show keys: "map Some (map fst table) =
      first_occurrences (map name_key (descriptor_items schema))"
    by (rule generate_rows_keys [OF run])
  assume d: "distinct (map name_key (descriptor_items schema))"
  with keys show same: "map Some (map fst table) = map name_key (descriptor_items schema)"
    by (simp add: first_occurrences_distinct)
  from arg_cong [OF same, of length] show "length table = length (descriptor_items schema)"
    by simp
qed

lemma lib0_draws:
  "draws (random_random lib0) 3 0 = [0, 1 / 10, 2 / 10]"
  "state_after (random_random lib0) 3 0 = 3"
  "draws (random_random lib0) 3 3 = [3 / 10, 4 / 10, 5 / 10]"
  "state_after (random_random lib0) 3 3 = 6"
proof -
  have n3: "(3::nat) = Suc (Suc (Suc 0))" by simp
  show "draws (random_random lib0) 3 0 = [0, 1 / 10, 2 / 10]"
    unfolding n3 by (simp add: lib0_def)
  show "state_after (random_random lib0) 3 0 = 3"
    unfolding n3 by (simp add: lib0_def)
  show "draws (random_random lib0) 3 3 = [3 / 10, 4 / 10, 5 / 10]"
    unfolding n3 by (simp add: lib0_def)
  show "state_after (random_random lib0) 3 3 = 6"
    unfolding n3 by (simp add: lib0_def)
qed

lemma lib0_labels:
  assumes "map_of c ''sample_values'' = None" "map_of c ''unique'' = None"
  shows "sample_categorical lib0 c 3 0 = (Inr [''cat0'', ''cat0'', ''cat1''], 3)"
    and "sample_categorical lib0 c 3 3 = (Inr [''cat1'', ''cat2'', ''cat2''], 6)"
proof -
  let ?cats = "[''cat0'', ''cat1'', ''cat2'', ''cat3'', ''cat4'']"
  have unit: "\<forall>s. 0 \<le> fst (random_random lib0 s) \<and> fst (random_random lib0 s) < 1"
    by (simp add: lib0_def)
  have "[0 ..< 5] = [0, 1, 2, 3, 4]" by (simp add: upt_conv_Cons)
  then have cats: "placeholders c = Inr ?cats"
    using assms(2) by (simp add: placeholders_def get_or_def str_nat.simps)
  have run: "sample_categorical lib0 c 3 st =
      (Inr (map (\<lambda>u. ?cats ! nat \<lfloor>u * real (length ?cats)\<rfloor>) (draws (random_random lib0) 3 st)),
       state_after (random_random lib0) 3 st)" for st
  proof -
    have "sample_categorical lib0 c 3 st = choices_loop (random_random lib0) ?cats 3 st"
      using assms(1) cats
      by (simp add: sample_categorical_def as_list_def get_or_def random_choices_def)
    also have "\<dots> = (Inr (map (\<lambda>u. ?cats ! nat \<lfloor>u * real (length ?cats)\<rfloor>)
                         (draws (random_random lib0) 3 st)),
                      state_after (random_random lib0) 3 st)"
      by (rule choices_loop_draws [OF unit]) simp
    finally show ?thesis .
  qed
  show "sample_categorical lib0 c 3 0 = (Inr [''cat0'', ''cat0'', ''cat1''], 3)"
    by (simp add: run lib0_draws)
  show "sample_categorical lib0 c 3 3 = (Inr [''cat1'', ''cat2'', ''cat2''], 6)"
    by (simp add: run lib0_draws)
qed

theorem generate_rows_columns_witness:
  "generate_rows lib0
     [(''columns'', JArr [JObj [(''name'', JStr ''age''), (''type'', JStr ''int'')],
                          JObj [(''name'', JStr ''name''), (''type'', JStr ''str'')]])] 3 0 =
     (Inr [(KStr ''age'', Strs [''cat0'', ''cat0'', ''cat1'']),
           (KStr ''name'', Strs [''cat1'', ''cat2'', ''cat2''])], 6) \<and>
   map Some [KStr ''age'', KStr ''name''] =
     map name_key (descriptor_items
       [(''columns'', JArr [JObj [(''name'', JStr ''age''), (''type'', JStr ''int'')],
                            JObj [(''name'', JStr ''name''), (''type'', JStr ''str'')]])])"
proof -
  let ?schema = "[(''columns'', JArr [JObj [(''name'', JStr ''age''), (''type'', JStr ''int'')],
                          JObj [(''name'', JStr ''name''), (''type'', JStr ''str'')]])]"
  have run: "generate_rows lib0 ?schema 3 0 =
     (Inr [(KStr ''age'', Strs [''cat0'', ''cat0'', ''cat1'']),
           (KStr ''name'', Strs [''cat1'', ''cat2'', ''cat2''])], 6)"
    by (simp add: generate_rows_def lookup_def sample_column_def lib0_labels DataFrame_def)
  have d: "distinct (map name_key (descriptor_items ?schema))"
    by (simp add: descriptor_items_def)
  from generate_rows_columns [of "JStr ''int''" lib0 "[]" 3 0 ?schema] run d
  have "map Some (map fst [(KStr ''age'', Strs [''cat0'', ''cat0'', ''cat1'']),
           (KStr ''name'', Strs [''cat1'', ''cat2'', ''cat2''])]) =
        map name_key (descriptor_items ?schema)"
    by blast
  with run show ?thesis by simp
qed

text \<open>
  The claim C9 as it was stated fails on schemas that pass validation: a numeric descriptor
  without \<^verbatim>\<open>min\<close> makes \<^verbatim>\<open>generate_rows\<close> raise KeyError, and two descriptors of one name give one
  column.
\<close>

theorem generate_rows_validated_schema_fails:
  "validate_schema
     [(''columns'', JArr [JObj [(''name'', JStr ''a''), (''type'', JStr ''numeric'')]])] = Inr () \<and>
   generate_rows lib0
     [(''columns'', JArr [JObj [(''name'', JStr ''a''), (''type'', JStr ''numeric'')]])] 3 0 =
     (Inl (KeyError ''min''), 0) \<and>
   validate_schema
     [(''columns'', JArr [JObj [(''name'', JStr ''a''), (''type'', JStr ''int'')],
                          JObj [(''name'', JStr ''a''), (''type'', JStr ''str'')]])] = Inr () \<and>
   generate_rows lib0
     [(''columns'', JArr [JObj [(''name'', JStr ''a''), (''type'', JStr ''int'')],
                          JObj [(''name'', JStr ''a''), (''type'', JStr ''str'')]])] 3 0 =
     (Inr [(KStr ''a'', Strs [''cat1'', ''cat2'', ''cat2''])], 6)"
  by (simp add: validate_schema_def has_keys_def generate_rows_def lookup_def sample_column_def
      sample_numeric_def lib0_labels DataFrame_def)

section \<open>Column type inference\<close>

lemma date_fraction_test:
  "fl_less (Fin (8 / 10)) (notna_mean dt) =
     (4 * length dt < 5 * length (filter (\<lambda>t. t \<noteq> None) dt))"
proof (cases "dt = []")
  case True
  then show ?thesis by (simp add: notna_mean_def)
next
  case False
  then have l: "0 < real (length dt)" by simp
  have "fl_less (Fin (8 / 10)) (notna_mean dt) =
          (8 / 10 < real (length (filter (\<lambda>t. t \<noteq> None) dt)) / real (length dt))"
    using False by (simp add: notna_mean_def)
  also have "\<dots> = (real (4 * length dt) < real (5 * length (filter (\<lambda>t. t \<noteq> None) dt)))"
    using l by (simp add: field_simps)
  also have "\<dots> = (4 * length dt < 5 * length (filter (\<lambda>t. t \<noteq> None) dt))"
    by (simp only: of_nat_less_iff)
  finally show ?thesis .
qed

lemma unique_ratio_test:
  assumes "xs \<noteq> []"
  shows "(real (length (remdups xs)) / real (length xs) < 4 / 10) =
           (5 * length (remdups xs) < 2 * length xs)"
proof -
  from assms have l: "0 < real (length xs)" by simp
  have "(real (length (remdups xs)) / real (length xs) < 4 / 10) =
          (real (5 * length (remdups xs)) < real (2 * length xs))"
    using l by (simp add: field_simps)
  also have "\<dots> = (5 * length (remdups xs) < 2 * length xs)"
    by (simp only: of_nat_less_iff)
  finally show ?thesis .
qed

text \<open>
  C3. \<^verbatim>\<open>_infer_col_type\<close> decides by the first test that applies: a column without a value that
  is not missing is \<^verbatim>\<open>text\<close>; otherwise the sample of \<open>min 20 n\<close> of its \<open>n\<close> values that are not
  missing (the same sample at both calls, the seed being fixed) is parsed, and the column is
  \<^verbatim>\<open>numeric\<close> when \<^verbatim>\<open>to_numeric\<close> does not raise on it; otherwise \<^verbatim>\<open>datetime\<close> when more than 80% of
  the sample parse as dates (\<open>5 * parsed > 4 * sampled\<close>); otherwise \<^verbatim>\<open>categorical\<close> exactly when
  the distinct values are fewer than 0.4 of the values that are not missing
  (\<open>5 * distinct < 2 * n\<close>), and \<^verbatim>\<open>text\<close> exactly when not. No other type is returned.
\<close>

theorem infer_col_type_chain:
  "(dropna s = [] \<longrightarrow> infer_col_type P s = ''text'') \<and>
   (dropna s \<noteq> [] \<longrightarrow>
      ((\<exists>v. to_numeric_raise P (sample42 P (min 20 (length (dropna s))) (dropna s)) = Inr v) \<longrightarrow>
         infer_col_type P s = ''numeric'') \<and>
      ((\<exists>e. to_numeric_raise P (sample42 P (min 20 (length (dropna s))) (dropna s)) = Inl e) \<longrightarrow>
         (4 * length (to_datetime_coerce P (sample42 P (min 20 (length (dropna s))) (dropna s)))
            < 5 * length (filter (\<lambda>t. t \<noteq> None)
                (to_datetime_coerce P (sample42 P (min 20 (length (dropna s))) (dropna s)))) \<longrightarrow>
            infer_col_type P s = ''datetime'') \<and>
         (\<not> 4 * length (to_datetime_coerce P (sample42 P (min 20 (length (dropna s))) (dropna s)))
            < 5 * length (filter (\<lambda>t. t \<noteq> None)
                (to_datetime_coerce P (sample42 P (min 20 (length (dropna s))) (dropna s)))) \<longrightarrow>
            (infer_col_type P s = ''categorical'') =
              (5 * length (remdups (dropna s)) < 2 * length (dropna s)) \<and>
            (infer_col_type P s = ''text'') =
              (\<not> 5 * length (remdups (dropna s)) < 2 * length (dropna s))))) \<and>
   infer_col_type P s \<in> {''numeric'', ''datetime'', ''categorical'', ''text''}"
proof -
  let ?smp = "sample42 P (min 20 (length (dropna s))) (dropna s)"
  let ?dt = "to_datetime_coerce P ?smp"
  have empty: "infer_col_type P s = ''text''" if "dropna s = []"
    using that by (simp add: infer_col_type_def)
  have numeric: "infer_col_type P s = ''numeric''"
    if "dropna s \<noteq> []" "to_numeric_raise P ?smp = Inr v" for v
    using that by (simp add: infer_col_type_def)
  have other: "infer_col_type P s =
      (if 4 * length ?dt < 5 * length (filter (\<lambda>t. t \<noteq> None) ?dt) then ''datetime''
       else if 5 * length (remdups (dropna s)) < 2 * length (dropna s) then ''categorical''
       else ''text'')"
    if ne: "dropna s \<noteq> []" and err: "to_numeric_raise P ?smp = Inl e" for e
    unfolding infer_col_type_def Let_def date_fraction_test unique_ratio_test [OF ne]
    using ne err by simp
  have range: "infer_col_type P s \<in> {''numeric'', ''datetime'', ''categorical'', ''text''}"
  proof (cases "dropna s = []")
    case True
    then show ?thesis using empty by simp
  next
    case False
    show ?thesis
    proof (cases "to_numeric_raise P ?smp")
      case (Inl e)
      from other [OF False Inl] show ?thesis by (simp split: if_splits)
    next
      case (Inr v)
      from numeric [OF False Inr] show ?thesis by simp
    qed
  qed
  show ?thesis
  proof (intro conjI impI)
    assume "dropna s = []"
    then show "infer_col_type P s = ''text''" by (rule empty)
  next
    assume "dropna s \<noteq> []" "\<exists>v. to_numeric_raise P ?smp = Inr v"
    then show "infer_col_type P s = ''numeric''" using numeric by blast
  next
    assume ne: "dropna s \<noteq> []" and "\<exists>e. to_numeric_raise P ?smp = Inl e"
      and "4 * length ?dt < 5 * length (filter (\<lambda>t. t \<noteq> None) ?dt)"
    then show "infer_col_type P s = ''datetime''" using other [OF ne] by (auto split: if_splits)
  next
    assume ne: "dropna s \<noteq> []" and "\<exists>e. to_numeric_raise P ?smp = Inl e"
      and "\<not> 4 * length ?dt < 5 * length (filter (\<lambda>t. t \<noteq> None) ?dt)"
    then show "(infer_col_type P s = ''categorical'') =
              (5 * length (remdups (dropna s)) < 2 * length (dropna s))"
      using other [OF ne] by (auto split: if_splits)
  next
    assume ne: "dropna s \<noteq> []" and "\<exists>e. to_numeric_raise P ?smp = Inl e"
      and "\<not> 4 * length ?dt < 5 * length (filter (\<lambda>t. t \<noteq> None) ?dt)"
    then show "(infer_col_type P s = ''text'') =
              (\<not> 5 * length (remdups (dropna s)) < 2 * length (dropna s))"
      using other [OF ne] by (auto split: if_splits)
  next
    show "infer_col_type P s \<in> {''numeric'', ''datetime'', ''categorical'', ''text''}"
      by (rule range)
  qed
qed

theorem infer_col_type_chain_witness:
  "dropna [Str ''a'', Str ''a'', Str ''a'', NA] \<noteq> [] \<and>
   infer_col_type pandas0 [Str ''a'', Str ''a'', Str ''a'', NA] = ''categorical'' \<and>
   infer_col_type pandas0 [Num 1, Num 2, Num 3] = ''numeric'' \<and>
   infer_col_type pandas0 [NA, NA] = ''text''"
proof -
  have a: "infer_col_type pandas0 [Str ''a'', Str ''a'', Str ''a'', NA] = ''categorical''"
    using infer_col_type_chain [of "[Str ''a'', Str ''a'', Str ''a'', NA]" pandas0]
    by (simp add: dropna_def pandas0_def)
  have b: "infer_col_type pandas0 [Num 1, Num 2, Num 3] = ''numeric''"
    using infer_col_type_chain [of "[Num 1, Num 2, Num 3]" pandas0]
    by (simp add: dropna_def pandas0_def)
  have c: "infer_col_type pandas0 [NA, NA] = ''text''"
    using infer_col_type_chain [of "[NA, NA]" pandas0]
    by (simp add: dropna_def)
  from a b c show ?thesis by (simp add: dropna_def)
qed

section \<open>The statistics of a numeric column\<close>

lemma series_formulas:
  assumes "finite_values s = xs" "xs \<noteq> []"
  shows "series_mean s = Fin (sum_list xs / real (length xs))"
    and "series_std0 s =
           Fin (sqrt ((\<Sum>x\<leftarrow>xs. (x - sum_list xs / real (length xs)) ^ 2) / real (length xs)))"
    and "series_min s = Fin (Min (set xs))"
    and "series_max s = Fin (Max (set xs))"
proof -
  from assms obtain y ys where xs: "xs = y # ys" by (cases xs) auto
  show "series_mean s = Fin (sum_list xs / real (length xs))"
    using assms by (simp add: series_mean_def)
  show "series_std0 s =
           Fin (sqrt ((\<Sum>x\<leftarrow>xs. (x - sum_list xs / real (length xs)) ^ 2) / real (length xs)))"
    using assms by (simp add: series_std0_def Let_def)
  show "series_min s = Fin (Min (set xs))"
    using assms(1) xs by (simp add: series_min_def Min.set_eq_fold [symmetric])
  show "series_max s = Fin (Max (set xs))"
    using assms(1) xs by (simp add: series_max_def Max.set_eq_fold [symmetric])
qed

lemma profile_series_numeric:
  assumes "infer_col_type P s = ''numeric''"
  shows "profile_series P col s =
     [(''name'', JStr col), (''type'', JStr ''numeric''),
      (''nullable'', JBool (list_ex (\<lambda>x. x = NA) s)),
      (''mean'', JFloat (series_mean (to_numeric_coerce P s))),
      (''std'', JFloat (series_std0 (to_numeric_coerce P s))),
      (''min'', JFloat (series_min (to_numeric_coerce P s))),
      (''max'', JFloat (series_max (to_numeric_coerce P s)))]"
  using assms by (simp add: profile_series_def Let_def)

lemma one_two_three_numeric:
  assumes "numbers_parse P"
  shows "infer_col_type P [Num 1, Num 2, Num 3] = ''numeric''"
    and "to_numeric_coerce P [Num 1, Num 2, Num 3] = [Fin 1, Fin 2, Fin 3]"
proof -
  let ?s = "[Num 1, Num 2, Num 3]"
  have nums: "list_all is_Num ?s" by simp
  have d: "dropna ?s = ?s" by (simp add: dropna_def)
  from assms nums have "list_all is_Num (sample42 P (min 20 (length ?s)) ?s)"
    unfolding numbers_parse_def by blast
  with assms obtain v where "to_numeric_raise P (sample42 P (min 20 (length ?s)) ?s) = Inr v"
    unfolding numbers_parse_def by blast
  then show "infer_col_type P ?s = ''numeric''"
    unfolding infer_col_type_def d Let_def by simp
  from assms nums have "to_numeric_coerce P ?s = map num_fl ?s"
    unfolding numbers_parse_def by blast
  then show "to_numeric_coerce P ?s = [Fin 1, Fin 2, Fin 3]" by simp
qed

text \<open>
  C8. For a column classified \<^verbatim>\<open>numeric\<close> the descriptor holds, beside name, type and nullable,
  the mean, the standard deviation, the minimum and the maximum of the column coerced to
  numbers; over the values \<open>xs\<close> that are numbers after coercion (the others are NaN and are
  left out) these are \<open>sum xs / N\<close>, the square root of the mean squared deviation (division by
  \<open>N\<close>, not \<open>N - 1\<close>), the least and the greatest value. With pandas parsing numbers as
  themselves, the column \<^verbatim>\<open>[1, 2, 3]\<close> is classified \<^verbatim>\<open>numeric\<close> with mean 2, minimum 1, maximum 3
  (and standard deviation \<open>sqrt (2/3)\<close>).
\<close>

theorem profile_numeric_statistics:
  "(infer_col_type P s = ''numeric'' \<longrightarrow>
      profile_series P col s =
        [(''name'', JStr col), (''type'', JStr ''numeric''),
         (''nullable'', JBool (list_ex (\<lambda>x. x = NA) s)),
         (''mean'', JFloat (series_mean (to_numeric_coerce P s))),
         (''std'', JFloat (series_std0 (to_numeric_coerce P s))),
         (''min'', JFloat (series_min (to_numeric_coerce P s))),
         (''max'', JFloat (series_max (to_numeric_coerce P s)))]) \<and>
   (\<forall>xs. finite_values (to_numeric_coerce P s) = xs \<and> xs \<noteq> [] \<longrightarrow>
      series_mean (to_numeric_coerce P s) = Fin (sum_list xs / real (length xs)) \<and>
      series_std0 (to_numeric_coerce P s) =
        Fin (sqrt ((\<Sum>x\<leftarrow>xs. (x - sum_list xs / real (length xs)) ^ 2) / real (length xs))) \<and>
      series_min (to_numeric_coerce P s) = Fin (Min (set xs)) \<and>
      series_max (to_numeric_coerce P s) = Fin (Max (set xs))) \<and>
   (numbers_parse P \<longrightarrow>
      profile_series P col [Num 1, Num 2, Num 3] =
        [(''name'', JStr col), (''type'', JStr ''numeric''), (''nullable'', JBool False),
         (''mean'', JFloat (Fin 2)), (''std'', JFloat (Fin (sqrt (2 / 3)))),
         (''min'', JFloat (Fin 1)), (''max'', JFloat (Fin 3))])"
proof (intro conjI allI impI)
  assume "infer_col_type P s = ''numeric''"
  then show "profile_series P col s =
        [(''name'', JStr col), (''type'', JStr ''numeric''),
         (''nullable'', JBool (list_ex (\<lambda>x. x = NA) s)),
         (''mean'', JFloat (series_mean (to_numeric_coerce P s))),
         (''std'', JFloat (series_std0 (to_numeric_coerce P s))),
         (''min'', JFloat (series_min (to_numeric_coerce P s))),
         (''max'', JFloat (series_max (to_numeric_coerce P s)))]"
    by (rule profile_series_numeric)
next
  fix xs
  assume h: "finite_values (to_numeric_coerce P s) = xs \<and> xs \<noteq> []"
  then have a: "finite_values (to_numeric_coerce P s) = xs" and b: "xs \<noteq> []" by simp_all
  show "series_mean (to_numeric_coerce P s) = Fin (sum_list xs / real (length xs))"
    by (rule series_formulas(1) [OF a b])
  show "series_std0 (to_numeric_coerce P s) =
        Fin (sqrt ((\<Sum>x\<leftarrow>xs. (x - sum_list xs / real (length xs)) ^ 2) / real (length xs)))"
    by (rule series_formulas(2) [OF a b])
  show "series_min (to_numeric_coerce P s) = Fin (Min (set xs))"
    by (rule series_formulas(3) [OF a b])
  show "series_max (to_numeric_coerce P s) = Fin (Max (set xs))"
    by (rule series_formulas(4) [OF a b])
next
  assume c: "numbers_parse P"
  have fv: "finite_values [Fin 1, Fin 2, Fin 3] = [1, 2, 3]" by simp
  have ne: "[1, 2, 3 :: real] \<noteq> []" by simp
  have m: "series_mean [Fin 1, Fin 2, Fin 3] = Fin 2"
    using series_formulas(1) [OF fv ne] by simp
  have sd: "series_std0 [Fin 1, Fin 2, Fin 3] = Fin (sqrt (2 / 3))"
    using series_formulas(2) [OF fv ne] by simp
  have mn: "series_min [Fin 1, Fin 2, Fin 3] = Fin 1"
    using series_formulas(3) [OF fv ne] by simp
  have mx: "series_max [Fin 1, Fin 2, Fin 3] = Fin 3"
    using series_formulas(4) [OF fv ne] by simp
  show "profile_series P col [Num 1, Num 2, Num 3] =
        [(''name'', JStr col), (''type'', JStr ''numeric''), (''nullable'', JBool False),
         (''mean'', JFloat (Fin 2)), (''std'', JFloat (Fin (sqrt (2 / 3)))),
         (''min'', JFloat (Fin 1)), (''max'', JFloat (Fin 3))]"
    unfolding profile_series_numeric [OF one_two_three_numeric(1) [OF c]]
      one_two_three_numeric(2) [OF c] m sd mn mx
    by simp
qed

lemma pandas0_numbers: "numbers_parse pandas0"
  unfolding numbers_parse_def
proof (intro allI impI conjI)
  fix k xs assume n: "list_all is_Num xs"
  then show "list_all is_Num (sample42 pandas0 k xs)"
    by (auto simp: pandas0_def list_all_iff dest: in_set_takeD)
  from n show "\<exists>v. to_numeric_raise pandas0 xs = Inr v" by (simp add: pandas0_def)
  show "to_numeric_coerce pandas0 xs = map num_fl xs" by (simp add: pandas0_def)
qed

theorem profile_numeric_statistics_witness:
  "numbers_parse pandas0 \<and>
   infer_col_type pandas0 [Num 1, Num 2, Num 3] = ''numeric'' \<and>
   profile_series pandas0 ''x'' [Num 1, Num 2, Num 3] =
     [(''name'', JStr ''x''), (''type'', JStr ''numeric''), (''nullable'', JBool False),
      (''mean'', JFloat (Fin 2)), (''std'', JFloat (Fin (sqrt (2 / 3)))),
      (''min'', JFloat (Fin 1)), (''max'', JFloat (Fin 3))]"
  using profile_numeric_statistics [of pandas0 "[Num 1, Num 2, Num 3]" "''x''"]
    pandas0_numbers one_two_three_numeric(1) [OF pandas0_numbers]
  by blast

section \<open>The frequencies of a categorical column\<close>

lemma set_insert_new: "set (foldl insert_new acc xs) = set acc \<union> set xs"
  by (induction xs arbitrary: acc) (auto simp: insert_new_def)

lemma set_first_occurrences: "set (first_occurrences xs) = set xs"
  by (simp add: first_occurrences_def set_insert_new)

lemma count_list_dropna: "k \<noteq> NA \<Longrightarrow> count_list (dropna s) k = count_list s k"
  by (induction s) (auto simp: dropna_def)

lemma value_counts_entry:
  assumes "(k, c) \<in> set (value_counts s)"
  shows "k \<noteq> NA \<and> k \<in> set s \<and> c = count_list s k \<and> 0 < c"
proof -
  from assms have "(k, c) \<in> set (map (\<lambda>k. (k, count_list (dropna s) k)) (first_occurrences (dropna s)))"
    by (simp add: value_counts_def Let_def)
  then have k: "k \<in> set (dropna s)" and c: "c = count_list (dropna s) k"
    by (auto simp: set_first_occurrences)
  from k have na: "k \<noteq> NA" and ks: "k \<in> set s" by (auto simp: dropna_def)
  from c na have "c = count_list s k" by (simp add: count_list_dropna)
  moreover from ks have "count_list s k \<noteq> 0" by (simp only: count_list_0_iff) simp
  then have "0 < count_list s k" by simp
  ultimately show ?thesis using na ks by simp
qed

lemma profile_series_categorical:
  assumes "infer_col_type P s = ''categorical''"
  shows "profile_series P col s =
     [(''name'', JStr col), (''type'', JStr ''categorical''),
      (''nullable'', JBool (list_ex (\<lambda>x. x = NA) s)),
      (''unique'', JInt (int (length (value_counts s)))),
      (''sample_values'',
       JArr (map (\<lambda>(k, c). JArr [cell_json k, JFloat (Fin (real c / real (length s)))])
              (take 20 (value_counts s))))]"
  using assms by (simp add: profile_series_def Let_def)

text \<open>
  C2 (as amended). For a column classified \<^verbatim>\<open>categorical\<close>, \<^verbatim>\<open>sample_values\<close> lists the first 20
  entries of \<^verbatim>\<open>value_counts\<close>, each value with its number of occurrences divided by the number
  of rows of the column, the missing ones included; the divisor is the number of values that
  are not missing only when the column has no missing value.
\<close>

theorem profile_categorical_frequencies:
  "(infer_col_type P s = ''categorical'' \<longrightarrow>
      profile_series P col s =
        [(''name'', JStr col), (''type'', JStr ''categorical''),
         (''nullable'', JBool (list_ex (\<lambda>x. x = NA) s)),
         (''unique'', JInt (int (length (value_counts s)))),
         (''sample_values'',
          JArr (map (\<lambda>(k, c). JArr [cell_json k, JFloat (Fin (real c / real (length s)))])
                 (take 20 (value_counts s))))]) \<and>
   (\<forall>k c. (k, c) \<in> set (take 20 (value_counts s)) \<longrightarrow>
      k \<noteq> NA \<and> c = count_list s k \<and> 0 < c \<and> 0 < length s) \<and>
   (\<not> list_ex (\<lambda>x. x = NA) s \<longrightarrow> length s = length (dropna s))"
proof (intro conjI allI impI)
  assume "infer_col_type P s = ''categorical''"
  then show "profile_series P col s =
        [(''name'', JStr col), (''type'', JStr ''categorical''),
         (''nullable'', JBool (list_ex (\<lambda>x. x = NA) s)),
         (''unique'', JInt (int (length (value_counts s)))),
         (''sample_values'',
          JArr (map (\<lambda>(k, c). JArr [cell_json k, JFloat (Fin (real c / real (length s)))])
                 (take 20 (value_counts s))))]"
    by (rule profile_series_categorical)
next
  fix k c
  assume "(k, c) \<in> set (take 20 (value_counts s))"
  then have "(k, c) \<in> set (value_counts s)" by (rule in_set_takeD)
  from value_counts_entry [OF this]
  have e: "k \<noteq> NA" "k \<in> set s" "c = count_list s k" "0 < c" by simp_all
  show "k \<noteq> NA" by (rule e(1))
  show "c = count_list s k" by (rule e(3))
  show "0 < c" by (rule e(4))
  from e(2) show "0 < length s" by (cases s) auto
next
  assume "\<not> list_ex (\<lambda>x. x = NA) s"
  then have "filter (\<lambda>x. x \<noteq> NA) s = s" by (auto simp: list_ex_iff filter_id_conv)
  then show "length s = length (dropna s)" by (simp add: dropna_def)
qed

lemma words_categorical:
  "infer_col_type pandas0 [Str ''a'', Str ''a'', Str ''a'', NA] = ''categorical''"
  by (simp add: infer_col_type_def dropna_def pandas0_def notna_mean_def)

lemma words_value_counts:
  "value_counts [Str ''a'', Str ''a'', Str ''a'', NA] = [(Str ''a'', 3)]"
  by (simp add: value_counts_def dropna_def first_occurrences_def insert_new_def)

theorem profile_categorical_frequencies_witness:
  "infer_col_type pandas0 [Str ''a'', Str ''a'', Str ''a'', NA] = ''categorical'' \<and>
   profile_series pandas0 ''c'' [Str ''a'', Str ''a'', Str ''a'', NA] =
     [(''name'', JStr ''c''), (''type'', JStr ''categorical''), (''nullable'', JBool True),
      (''unique'', JInt 1),
      (''sample_values'', JArr [JArr [JStr ''a'', JFloat (Fin (3 / 4))]])]"
  using profile_categorical_frequencies [of pandas0 "[Str ''a'', Str ''a'', Str ''a'', NA]" "''c''"]
    words_categorical
  by (simp add: words_value_counts)

text \<open>
  The claim C2 as it was stated fails on a column with a missing value: in \<^verbatim>\<open>[a, a, a, NaN]\<close> the
  value \<^verbatim>\<open>a\<close> occurs 3 times among 3 values that are not missing, and its stored frequency is
  3/4.
\<close>

theorem frequency_counts_missing_rows:
  "infer_col_type pandas0 [Str ''a'', Str ''a'', Str ''a'', NA] = ''categorical'' \<and>
   map_of (profile_series pandas0 ''c'' [Str ''a'', Str ''a'', Str ''a'', NA]) ''sample_values'' =
     Some (JArr [JArr [JStr ''a'', JFloat (Fin (3 / 4))]]) \<and>
   real (count_list [Str ''a'', Str ''a'', Str ''a'', NA] (Str ''a'')) /
     real (length (dropna [Str ''a'', Str ''a'', Str ''a'', NA])) = 1"
  by (simp add: words_categorical profile_series_categorical words_value_counts dropna_def)

section \<open>Profiling, then validating\<close>

lemma has_keys_profile_series: "has_keys (profile_series P col s)"
  by (simp add: has_keys_def profile_series_def Let_def)

lemma check_columns_descriptors:
  "(\<And>c. has_keys (f c)) \<Longrightarrow> check_columns (map (\<lambda>c. JObj (f c)) cs) = Inr ()"
  by (induction cs) simp_all

lemma validate_profile: "validate_schema (profile P df) = Inr ()"
proof -
  have "check_columns (map (\<lambda>c. JObj (profile_column P df c)) (columns df)) = Inr ()"
    by (rule check_columns_descriptors) (simp add: profile_column_def has_keys_profile_series)
  then show ?thesis by (simp add: validate_schema_def profile_def)
qed

lemma clean_columns: "columns (clean P df) = (if no_data df then [] else columns df)"
proof -
  have "filter (\<lambda>r. \<not> list_all (\<lambda>x. x = NA) r) (rows df) = [] \<longleftrightarrow> no_data df"
    by (simp add: no_data_def filter_empty_conv list_all_iff)
  then show ?thesis by (simp add: clean_def Let_def)
qed

text \<open>
  C4. For every table and every behaviour of the pandas calls, the document that
  \<^verbatim>\<open>Profiler(df).profile()\<close> returns passes \<^verbatim>\<open>validate_schema\<close>: it has the key \<^verbatim>\<open>columns\<close>, a list
  with one descriptor per column of the cleaned table, and every descriptor has \<^verbatim>\<open>name\<close> (the
  column name) and \<^verbatim>\<open>type\<close> (the inferred type). The cleaned table has the columns of the table,
  or no column at all when every row of the table is empty.
\<close>

theorem validate_profile_roundtrip:
  "validate_schema (Profiler_profile P df) = Inr () \<and>
   map_of (Profiler_profile P df) ''columns'' =
     Some (JArr (map (\<lambda>c. JObj (profile_column P (clean P df) c)) (columns (clean P df)))) \<and>
   (\<forall>c. map_of (profile_column P (clean P df) c) ''name'' = Some (JStr c) \<and>
        map_of (profile_column P (clean P df) c) ''type'' =
          Some (JStr (infer_col_type P (column_values (clean P df) c)))) \<and>
   columns (clean P df) = (if no_data df then [] else columns df)"
proof (intro conjI allI)
  show "validate_schema (Profiler_profile P df) = Inr ()"
    by (simp add: Profiler_profile_def validate_profile)
  show "map_of (Profiler_profile P df) ''columns'' =
     Some (JArr (map (\<lambda>c. JObj (profile_column P (clean P df) c)) (columns (clean P df))))"
    by (simp add: Profiler_profile_def profile_def)
  show "columns (clean P df) = (if no_data df then [] else columns df)"
    by (rule clean_columns)
  fix c
  show "map_of (profile_column P (clean P df) c) ''name'' = Some (JStr c)"
    by (simp add: profile_column_def profile_series_def Let_def)
  show "map_of (profile_column P (clean P df) c) ''type'' =
          Some (JStr (infer_col_type P (column_values (clean P df) c)))"
    by (simp add: profile_column_def profile_series_def Let_def)
qed


lemma clean_one_two_three:
  "clean pandas0 \<lparr>columns = [''x''], rows = [[Num 1], [Num 2], [Num 3]]\<rparr> =
     \<lparr>columns = [''x''], rows = [[Num 1], [Num 2], [Num 3]]\<rparr>"
  by (simp add: clean_def looks_like_header_def pandas0_def lower_def lower_char_def
      fullmatch_word_def METADATA_TOKENS_def str_nat.simps)

lemma clean_all_missing:
  "clean pandas0 \<lparr>columns = [''x''], rows = [[NA], [NA]]\<rparr> = \<lparr>columns = [], rows = []\<rparr>"
  by (simp add: clean_def)

theorem validate_profile_roundtrip_witness:
  "validate_schema
     (Profiler_profile pandas0 \<lparr>columns = [''x''], rows = [[Num 1], [Num 2], [Num 3]]\<rparr>) = Inr () \<and>
   map_of (Profiler_profile pandas0 \<lparr>columns = [''x''], rows = [[Num 1], [Num 2], [Num 3]]\<rparr>)
     ''num_rows'' = Some (JInt 3) \<and>
   map_of (profile_column pandas0 \<lparr>columns = [''x''], rows = [[Num 1], [Num 2], [Num 3]]\<rparr> ''x'')
     ''type'' = Some (JStr ''numeric'') \<and>
   Profiler_profile pandas0 \<lparr>columns = [''x''], rows = [[NA], [NA]]\<rparr> =
     [(''columns'', JArr []), (''num_rows'', JInt 0)] \<and>
   validate_schema (Profiler_profile pandas0 \<lparr>columns = [''x''], rows = [[NA], [NA]]\<rparr>) = Inr ()"
proof -
  let ?none = "\<lparr>columns = [''x''], rows = [[NA], [NA]]\<rparr>"
  have e: "Profiler_profile pandas0 ?none = [(''columns'', JArr []), (''num_rows'', JInt 0)]"
    by (simp add: Profiler_profile_def profile_def clean_all_missing)
  have ve: "validate_schema (Profiler_profile pandas0 ?none) = Inr ()"
    using validate_profile_roundtrip [of pandas0 ?none] by blast
  let ?df = "\<lparr>columns = [''x''], rows = [[Num 1], [Num 2], [Num 3]]\<rparr>"
  note t = validate_profile_roundtrip [of pandas0 ?df]
  have v: "validate_schema (Profiler_profile pandas0 ?df) = Inr ()" using t by blast
  have n: "map_of (Profiler_profile pandas0 ?df) ''num_rows'' = Some (JInt 3)"
    by (simp add: Profiler_profile_def profile_def clean_one_two_three)
  have c: "column_values ?df ''x'' = [Num 1, Num 2, Num 3]"
    by (simp add: column_values_def)
  have "infer_col_type pandas0 [Num 1, Num 2, Num 3] = ''numeric''"
    by (simp add: infer_col_type_def dropna_def pandas0_def)
  with t c have ty: "map_of (profile_column pandas0 ?df ''x'') ''type'' = Some (JStr ''numeric'')"
    by (simp add: clean_one_two_three)
  from v n ty e ve show ?thesis by (intro conjI)
qed

end
